theory Spec2Isabelle
  imports Complex_Main
begin

section \<open>Numbers, vectors and quaternions\<close>

text \<open>
  The program computes with JavaScript numbers. They are modelled as the reals: every
  statement below is about the exact arithmetic the code writes down, not about the
  rounding of IEEE doubles. The vector and quaternion operations are the ones of the
  three.js classes \<^verbatim>\<open>Vector3\<close> and \<^verbatim>\<open>Quaternion\<close> that the source calls, written
  out componentwise.
\<close>

datatype vec3 = Vector3 (vx: real) (vy: real) (vz: real)

datatype quat = Quaternion (qx: real) (qy: real) (qz: real) (qw: real)

definition addScaledVector :: "vec3 \<Rightarrow> vec3 \<Rightarrow> real \<Rightarrow> vec3" where
  "addScaledVector a v s = Vector3 (vx a + vx v * s) (vy a + vy v * s) (vz a + vz v * s)"

definition sub :: "vec3 \<Rightarrow> vec3 \<Rightarrow> vec3" where
  "sub a v = Vector3 (vx a - vx v) (vy a - vy v) (vz a - vz v)"

definition add :: "vec3 \<Rightarrow> vec3 \<Rightarrow> vec3" where
  "add a v = Vector3 (vx a + vx v) (vy a + vy v) (vz a + vz v)"

definition negate :: "vec3 \<Rightarrow> vec3" where
  "negate a = Vector3 (- vx a) (- vy a) (- vz a)"

definition multiplyScalar :: "vec3 \<Rightarrow> real \<Rightarrow> vec3" where
  "multiplyScalar a s = Vector3 (vx a * s) (vy a * s) (vz a * s)"

definition divideScalar :: "vec3 \<Rightarrow> real \<Rightarrow> vec3" where
  "divideScalar a s = multiplyScalar a (1 / s)"

definition lengthv :: "vec3 \<Rightarrow> real" where
  "lengthv a = sqrt (vx a * vx a + vy a * vy a + vz a * vz a)"

text \<open>\<^verbatim>\<open>normalize()\<close> is \<^verbatim>\<open>divideScalar(this.length() || 1)\<close>: the zero vector stays zero.\<close>

definition normalize :: "vec3 \<Rightarrow> vec3" where
  "normalize a = divideScalar a (if lengthv a = 0 then 1 else lengthv a)"

definition distanceTo :: "vec3 \<Rightarrow> vec3 \<Rightarrow> real" where
  "distanceTo a v =
     sqrt ((vx a - vx v) * (vx a - vx v) + (vy a - vy v) * (vy a - vy v)
           + (vz a - vz v) * (vz a - vz v))"

text \<open>
  \<^verbatim>\<open>Vector3.applyQuaternion(q)\<close>: with \<open>t = 2 * cross(q.xyz, v)\<close> the result is
  \<open>v + q.w * t + cross(q.xyz, t)\<close>. (Older releases of three.js compute the product
  \<open>q * v * conjugate q\<close>, which is the same vector for a quaternion of unit length.)
\<close>

definition applyQuaternion :: "vec3 \<Rightarrow> quat \<Rightarrow> vec3" where
  "applyQuaternion v q =
     (let tx = 2 * (qy q * vz v - qz q * vy v);
          ty = 2 * (qz q * vx v - qx q * vz v);
          tz = 2 * (qx q * vy v - qy q * vx v)
      in Vector3 (vx v + qw q * tx + qy q * tz - qz q * ty)
                 (vy v + qw q * ty + qz q * tx - qx q * tz)
                 (vz v + qw q * tz + qx q * ty - qy q * tx))"

text \<open>\<^verbatim>\<open>Quaternion.setFromAxisAngle(axis, angle)\<close>; the axis is assumed normalised by the caller.\<close>

definition setFromAxisAngle :: "vec3 \<Rightarrow> real \<Rightarrow> quat" where
  "setFromAxisAngle axis angle =
     (let halfAngle = angle / 2; s = sin halfAngle
      in Quaternion (vx axis * s) (vy axis * s) (vz axis * s) (cos halfAngle))"

section \<open>Rays and intersections\<close>

record ray =
  origin :: vec3
  direction :: vec3

text \<open>
  A \<^verbatim>\<open>THREE.Intersection\<close>: the distance along the ray, the hit point, the name of the
  struck object and the surface normal, which is optional in the three.js type.
\<close>

record intersection =
  distance :: real
  point :: vec3
  object_name :: string
  normal :: "vec3 option"

text \<open>
  \<^verbatim>\<open>isGroundIntersection\<close>: \<^verbatim>\<open>(intersection.normal?.y ?? 0) > 0.9\<close>. The logging call has
  no effect on the result.
\<close>

definition isGroundIntersection :: "intersection \<Rightarrow> bool" where
  "isGroundIntersection i = ((case normal i of None \<Rightarrow> 0 | Some n \<Rightarrow> vy n) > 0.9)"

section \<open>Controller connection\<close>

datatype error =
    GamepadNotAvailable
  | GamepadAxesNotAvailable
  | UnknownControllerType
  | ControllerAlreadyConnected

text \<open>The values of the WebXR enumeration \<^verbatim>\<open>XRTargetRayMode\<close>.\<close>

datatype targetRayMode = Gaze | TrackedPointer | Screen | TransientPointer

record gamepad =
  axes :: "real list"
  buttons :: "bool list"

record xr_input_source =
  targetRayMode :: targetRayMode
  input_gamepad :: "gamepad option"

datatype controller_mesh = TrackedPointerLine | GazeRing

fun buildController :: "xr_input_source \<Rightarrow> error + controller_mesh" where
  "buildController data =
     (case targetRayMode data of
        TrackedPointer \<Rightarrow> Inr TrackedPointerLine
      | Gaze \<Rightarrow> Inr GazeRing
      | _ \<Rightarrow> Inl UnknownControllerType)"

record connected_controller =
  cc_gamepad :: gamepad
  controllerMesh :: controller_mesh

text \<open>The constructor of \<^verbatim>\<open>ThreeXRConnectedController\<close>; each \<^verbatim>\<open>throw\<close> is an \<open>Inl\<close>.\<close>

definition ThreeXRConnectedController :: "xr_input_source \<Rightarrow> error + connected_controller" where
  "ThreeXRConnectedController inputSource =
     (case input_gamepad inputSource of
        None \<Rightarrow> Inl GamepadNotAvailable
      | Some g \<Rightarrow>
          if length (axes g) < 4 then Inl GamepadAxesNotAvailable
          else (case buildController inputSource of
                  Inl e \<Rightarrow> Inl e
                | Inr mesh \<Rightarrow> Inr \<lparr>cc_gamepad = g, controllerMesh = mesh\<rparr>))"

text \<open>
  The tracked target-ray space \<^verbatim>\<open>THREE.XRTargetRaySpace\<close> of a controller slot: the pose
  the WebXR manager writes every frame.
\<close>

record xr_target_ray_space =
  space_position :: vec3
  space_quaternion :: quat

record three_xr_controller =
  controller :: xr_target_ray_space
  connectedController :: "connected_controller option"

definition handleControllerConnected ::
  "three_xr_controller \<Rightarrow> xr_input_source \<Rightarrow> error + three_xr_controller" where
  "handleControllerConnected this data =
     (case connectedController this of
        Some _ \<Rightarrow> Inl ControllerAlreadyConnected
      | None \<Rightarrow>
          (case ThreeXRConnectedController data of
             Inl e \<Rightarrow> Inl e
           | Inr c \<Rightarrow> Inr (this\<lparr>connectedController := Some c\<rparr>)))"

definition handleControllerDisconnected :: "three_xr_controller \<Rightarrow> three_xr_controller" where
  "handleControllerDisconnected this =
     (case connectedController this of
        None \<Rightarrow> this
      | Some _ \<Rightarrow> this\<lparr>connectedController := None\<rparr>)"

section \<open>The scene and the three.js ray caster\<close>

text \<open>
  A scene node (\<^verbatim>\<open>THREE.Object3D\<close>) is modelled by what ray casting sees of it: its own
  \<^verbatim>\<open>raycast\<close> method, which reports the hits of the node for a ray and a range
  \<open>near\<close>..\<open>far\<close>, and its child nodes.
\<close>

datatype object3d =
  Object3D (raycast: "ray \<Rightarrow> real \<Rightarrow> real \<Rightarrow> intersection list") (children: "object3d list")

text \<open>
  \<^verbatim>\<open>THREE.Raycaster.intersectObject(object, recursive)\<close>: collect the hits of the object
  and, when \<open>recursive\<close>, of all its descendants, then sort them by ascending distance
  (\<^verbatim>\<open>intersects.sort((a, b) => a.distance - b.distance)\<close>, a stable sort).
\<close>

fun intersect :: "object3d \<Rightarrow> ray \<Rightarrow> real \<Rightarrow> real \<Rightarrow> bool \<Rightarrow> intersection list" where
  "intersect (Object3D rc cs) r near far recursive =
     rc r near far
     @ (if recursive then concat (map (\<lambda>c. intersect c r near far recursive) cs) else [])"

definition Raycaster_intersectObject ::
  "object3d \<Rightarrow> bool \<Rightarrow> ray \<Rightarrow> real \<Rightarrow> real \<Rightarrow> intersection list" where
  "Raycaster_intersectObject object recursive r near far =
     sort_key distance (intersect object r near far recursive)"

section \<open>Arccaster: the trajectory simulation\<close>

record arccaster =
  gravity :: vec3

record arc_result =
  trace :: "vec3 list"
  intersection :: "intersection option"

definition step :: real where
  "step = 0.2"

text \<open>
  The \<^verbatim>\<open>for\<close> loop of \<^verbatim>\<open>Arccaster.intersectObject\<close>, with its loop counter \<open>x\<close> and the
  three variables it updates: \<open>velocity\<close>, \<open>position\<close> and the array \<open>trace\<close>
  (\<^verbatim>\<open>push\<close> appends at the end). The ray of each segment starts at the last element of
  \<open>trace\<close>, points along the normalised difference to the new position, and is cast with
  \<open>near = 0\<close> and \<open>far\<close> the distance of the two points.
\<close>

function arc_loop ::
  "vec3 \<Rightarrow> object3d \<Rightarrow> nat \<Rightarrow> vec3 \<Rightarrow> vec3 \<Rightarrow> vec3 list \<Rightarrow> arc_result" where
  "arc_loop g object x velocity position tr =
     (if x < 50 then
        (let velocity' = addScaledVector velocity g step;
             position' = addScaledVector position velocity' step
         in if length tr > 0 then
              (let lastPosition = tr ! (length tr - 1);
                   r = \<lparr>origin = lastPosition,
                        direction = normalize (sub position' lastPosition)\<rparr>;
                   intersections =
                     Raycaster_intersectObject object True r 0 (distanceTo lastPosition position')
               in if length intersections > 0 then
                    \<lparr>trace = tr @ [point (intersections ! 0)],
                     intersection = Some (intersections ! 0)\<rparr>
                  else arc_loop g object (x + 1) velocity' position' (tr @ [position']))
            else arc_loop g object (x + 1) velocity' position' (tr @ [position']))
      else \<lparr>trace = tr, intersection = None\<rparr>)"
  by pat_completeness auto
termination
  by (relation "measure (\<lambda>(g, object, x, velocity, position, tr). 50 - x)") auto

declare arc_loop.simps [simp del]

definition intersectObject :: "arccaster \<Rightarrow> object3d \<Rightarrow> vec3 \<Rightarrow> quat \<Rightarrow> arc_result" where
  "intersectObject this object position rotation =
     arc_loop (gravity this) object 0 (applyQuaternion (Vector3 0 0 (- 1)) rotation)
       position [position]"

subsection \<open>The reference algorithm of the specification\<close>

text \<open>
  The algorithm as the specification words it, for comparison with the loop above. The
  nearest hit of a segment is the hit of least distance among all hits that the scene
  nodes report for the ray from the previous sample toward the new one, within the range
  from 0 to the distance of the two samples.
\<close>

fun scene_hits :: "object3d \<Rightarrow> ray \<Rightarrow> real \<Rightarrow> intersection list" where
  "scene_hits (Object3D rc cs) r reach = rc r 0 reach @ concat (map (\<lambda>c. scene_hits c r reach) cs)"

definition nearest_hit :: "object3d \<Rightarrow> vec3 \<Rightarrow> vec3 \<Rightarrow> intersection option" where
  "nearest_hit scene previous new =
     (let hits = scene_hits scene
                   \<lparr>origin = previous, direction = normalize (sub new previous)\<rparr>
                   (distanceTo previous new)
      in if hits = [] then None else Some (arg_min_list distance hits))"

fun reference_steps ::
  "nat \<Rightarrow> vec3 \<Rightarrow> object3d \<Rightarrow> vec3 \<Rightarrow> vec3 \<Rightarrow> vec3 list \<times> intersection option" where
  "reference_steps 0 g scene v p = ([], None)"
| "reference_steps (Suc n) g scene v p =
     (let v' = addScaledVector v g 0.2;
          p' = addScaledVector p v' 0.2
      in case nearest_hit scene p p' of
           Some h \<Rightarrow> ([point h], Some h)
         | None \<Rightarrow>
             (case reference_steps n g scene v' p' of
                (samples, collision) \<Rightarrow> (p' # samples, collision)))"

definition reference_trajectory :: "vec3 \<Rightarrow> object3d \<Rightarrow> vec3 \<Rightarrow> quat \<Rightarrow> arc_result" where
  "reference_trajectory g scene start orientation =
     (case reference_steps 50 g scene (applyQuaternion (Vector3 0 0 (- 1)) orientation) start of
        (samples, collision) \<Rightarrow> \<lparr>trace = start # samples, intersection = collision\<rparr>)"

subsection \<open>The loop computes the reference algorithm\<close>

text \<open>The first element of a list sorted by a key is the first element of least key.\<close>

lemma hd_sort_key_arg_min: "xs \<noteq> [] \<Longrightarrow> hd (sort_key f xs) = arg_min_list f xs"
proof (induction f xs rule: arg_min_list.induct)
  case (1 f x)
  then show ?case by simp
next
  case (2 f x y zs)
  have "sort_key f (y # zs) \<noteq> []"
    by (metis length_sort list.size(3) list.distinct(1) length_0_conv)
  then obtain a as where as: "sort_key f (y # zs) = a # as"
    by (cases "sort_key f (y # zs)") auto
  with 2 have "a = arg_min_list f (y # zs)" by simp
  with as show ?case by (simp add: Let_def)
next
  case (3 f)
  then show ?case by simp
qed

lemma intersect_scene_hits: "intersect object r 0 far True = scene_hits object r far"
  by (induction object r far rule: scene_hits.induct) (simp cong: map_cong)

lemma nearest_hit_Raycaster:
  "nearest_hit scene p p' =
     (case Raycaster_intersectObject scene True
             \<lparr>origin = p, direction = normalize (sub p' p)\<rparr> 0 (distanceTo p p') of
        [] \<Rightarrow> None | h # _ \<Rightarrow> Some h)"
proof -
  let ?hits = "scene_hits scene \<lparr>origin = p, direction = normalize (sub p' p)\<rparr> (distanceTo p p')"
  show ?thesis
  proof (cases "?hits = []")
    case True
    then show ?thesis
      by (simp add: nearest_hit_def Raycaster_intersectObject_def intersect_scene_hits)
  next
    case False
    then have "sort_key distance ?hits \<noteq> []"
      by (metis length_sort length_0_conv)
    then obtain h hs where hs: "sort_key distance ?hits = h # hs"
      by (cases "sort_key distance ?hits") auto
    from hd_sort_key_arg_min [OF False, of distance] hs
    have "arg_min_list distance ?hits = h" by simp
    with False hs show ?thesis
      by (simp add: nearest_hit_def Raycaster_intersectObject_def intersect_scene_hits)
  qed
qed

text \<open>The nearest hit is one of the hits of the segment, and none of them is nearer.\<close>

lemma nearest_hit_least:
  assumes "nearest_hit scene p p' = Some h"
  shows "h \<in> set (scene_hits scene \<lparr>origin = p, direction = normalize (sub p' p)\<rparr>
                     (distanceTo p p')) \<and>
         (\<forall>h' \<in> set (scene_hits scene \<lparr>origin = p, direction = normalize (sub p' p)\<rparr>
                          (distanceTo p p')). distance h \<le> distance h')"
proof -
  let ?hits = "scene_hits scene \<lparr>origin = p, direction = normalize (sub p' p)\<rparr> (distanceTo p p')"
  from assms have ne: "?hits \<noteq> []" and h: "h = arg_min_list distance ?hits"
    by (auto simp add: nearest_hit_def Let_def split: if_splits)
  from f_arg_min_list_f [OF ne, of distance] h
  have "distance h = Min (distance ` set ?hits)" by simp
  then have "\<forall>h' \<in> set ?hits. distance h \<le> distance h'" by simp
  with arg_min_list_in [OF ne, of distance] h show ?thesis by simp
qed

text \<open>
  The loop invariant: \<open>trace\<close> is never empty and its last element is the current
  position. From loop counter \<open>x\<close> on, the loop appends what the reference algorithm
  produces in the remaining \<open>50 - x\<close> steps.
\<close>

lemma arc_loop_reference:
  "x \<le> 50 \<Longrightarrow> tr \<noteq> [] \<Longrightarrow> last tr = position \<Longrightarrow>
   arc_loop g object x velocity position tr =
     (case reference_steps (50 - x) g object velocity position of
        (samples, collision) \<Rightarrow> \<lparr>trace = tr @ samples, intersection = collision\<rparr>)"
proof (induction g object x velocity position tr rule: arc_loop.induct)
  case (1 g object x velocity position tr)
  show ?case
  proof (cases "x < 50")
    case False
    with 1(3) have "x = 50" by simp
    then show ?thesis by (subst arc_loop.simps) simp
  next
    case True
    then obtain n where n: "50 - x = Suc n" "50 - (x + 1) = n"
      by (metis Suc_diff_Suc Suc_eq_plus1 diff_diff_left plus_1_eq_Suc)
    define v' where "v' = addScaledVector velocity g step"
    define p' where "p' = addScaledVector position v' step"
    define r where "r = \<lparr>origin = position, direction = normalize (sub p' position)\<rparr>"
    define hits where "hits = Raycaster_intersectObject object True r 0 (distanceTo position p')"
    have lastp: "tr ! (length tr - 1) = position"
      using 1(4,5) by (simp add: last_conv_nth)
    show ?thesis
    proof (cases hits)
      case Nil
      have IH: "arc_loop g object (x + 1) v' p' (tr @ [p']) =
         (case reference_steps (50 - (x + 1)) g object v' p' of
           (samples, collision) \<Rightarrow> \<lparr>trace = (tr @ [p']) @ samples, intersection = collision\<rparr>)"
        using 1(1) [OF True v'_def p'_def _ refl refl refl] 1(4) True Nil lastp
        unfolding hits_def r_def p'_def v'_def by simp
      have nh: "nearest_hit object position p' = None"
        using Nil unfolding hits_def r_def by (simp add: nearest_hit_Raycaster)
      show ?thesis
        apply (subst arc_loop.simps)
        using True 1(4) lastp Nil IH nh n
        unfolding hits_def r_def p'_def v'_def
        by (simp add: Let_def step_def split: prod.splits)
    next
      case (Cons h hs)
      have nh: "nearest_hit object position p' = Some h"
        using Cons unfolding hits_def r_def by (simp add: nearest_hit_Raycaster)
      show ?thesis
        apply (subst arc_loop.simps)
        using True 1(4) lastp Cons nh n
        unfolding hits_def r_def p'_def v'_def
        by (simp add: Let_def step_def split: prod.splits)
    qed
  qed
qed

text \<open>
  C1. For every gravity vector, target scene, starting position and starting orientation,
  \<^verbatim>\<open>Arccaster.intersectObject\<close> returns what the reference algorithm of the specification
  returns: the velocity starts as \<open>(0, 0, -1)\<close> rotated by the orientation; at most 50
  steps of size 0.2, each adding \<open>gravity * step\<close> to the velocity and then
  \<open>velocity * step\<close> to the position; before a new sample is appended a ray is cast from
  the previous sample toward it, with the distance of the two samples as its range; on a
  hit the point of the nearest hit is appended as the last sample, the collision is
  returned and no further step is taken; with no hit in 50 steps there is no collision.
\<close>

theorem intersectObject_follows_reference:
  "intersectObject this object position rotation =
     reference_trajectory (gravity this) object position rotation"
  using arc_loop_reference [of 0 "[position]" position "gravity this" object
      "applyQuaternion (Vector3 0 0 (- 1)) rotation"]
  by (simp add: intersectObject_def reference_trajectory_def split: prod.splits)

section \<open>Length and path length of the trajectory\<close>











text \<open>A scene in which no ray hits anything.\<close>

definition empty_scene :: object3d where
  "empty_scene = Object3D (\<lambda>r near far. []) []"












section \<open>TeleportationArc: the arc and its landing marker\<close>

text \<open>
  The landing marker is a scene node of which the code sets the position, the rotation
  and the visibility.
\<close>

record marker_object =
  marker_position :: vec3
  marker_quaternion :: quat
  marker_visible :: bool

text \<open>
  \<^verbatim>\<open>TeleportationArc\<close>: its simulator, its marker and its validity predicate; the
  position and orientation of the arc node itself (its parent is the scene, so they are
  its world pose); the points of the line geometry and the visibility of the line.
\<close>

record teleportation_arc =
  arccaster :: arccaster
  marker :: marker_object
  validateIntersection :: "intersection \<Rightarrow> bool"
  arc_position :: vec3
  arc_quaternion :: quat
  line_points :: "vec3 list"
  line_visible :: bool

definition TeleportationArc_update ::
  "teleportation_arc \<Rightarrow> object3d \<Rightarrow> real \<Rightarrow> teleportation_arc" where
  "TeleportationArc_update this object angle =
     (let position = arc_position this;
          rotation = arc_quaternion this;
          res = intersectObject (arccaster this) object position rotation;
          hasIntersection =
            (case intersection res of
               None \<Rightarrow> False
             | Some i \<Rightarrow> validateIntersection this i);
          m = (case intersection res of
                 None \<Rightarrow> marker this
               | Some i \<Rightarrow>
                   if hasIntersection then
                     (let m1 = (marker this)\<lparr>marker_position := point i\<rparr>
                      in case normal i of
                           None \<Rightarrow> m1
                         | Some _ \<Rightarrow>
                             m1\<lparr>marker_quaternion := setFromAxisAngle (Vector3 0 1 0) angle\<rparr>)
                   else marker this)
      in this\<lparr>line_points := trace res, marker := m\<lparr>marker_visible := hasIntersection\<rparr>\<rparr>)"

section \<open>ThreeXRSession: the reference space of the session\<close>

text \<open>
  A WebXR rigid transform and the reference spaces the code handles: the two kinds it
  negotiates and the spaces \<^verbatim>\<open>getOffsetReferenceSpace\<close> derives from one of them. The
  constructor \<^verbatim>\<open>XRRigidTransform(position, orientation)\<close> normalises the orientation.
\<close>

record xr_rigid_transform =
  transform_position :: vec3
  transform_orientation :: quat

datatype reference_space =
    LocalFloor
  | Viewer
  | OffsetSpace reference_space xr_rigid_transform

definition lengthq :: "quat \<Rightarrow> real" where
  "lengthq q = sqrt (qx q * qx q + qy q * qy q + qz q * qz q + qw q * qw q)"

definition normalizeq :: "quat \<Rightarrow> quat" where
  "normalizeq q =
     (let l = lengthq q
      in if l = 0 then q else Quaternion (qx q / l) (qy q / l) (qz q / l) (qw q / l))"

definition XRRigidTransform :: "vec3 \<Rightarrow> quat \<Rightarrow> xr_rigid_transform" where
  "XRRigidTransform p q = \<lparr>transform_position = p, transform_orientation = normalizeq q\<rparr>"

definition getOffsetReferenceSpace :: "reference_space \<Rightarrow> xr_rigid_transform \<Rightarrow> reference_space" where
  "getOffsetReferenceSpace base offset = OffsetSpace base offset"

text \<open>
  The WebXR manager of three.js, as far as the code uses it: the reference spaces that
  \<^verbatim>\<open>setReferenceSpace\<close> was called with, in order. The last one is the active space.
\<close>

record webxr_manager =
  installed :: "reference_space list"

definition setReferenceSpace :: "webxr_manager \<Rightarrow> reference_space \<Rightarrow> webxr_manager" where
  "setReferenceSpace m space = m\<lparr>installed := installed m @ [space]\<rparr>"

definition active_space :: "webxr_manager \<Rightarrow> reference_space option" where
  "active_space m = (if installed m = [] then None else Some (last (installed m)))"

record three_xr_session =
  webxrManager :: webxr_manager
  baseReferenceSpace :: reference_space

text \<open>
  \<^verbatim>\<open>setOffset(_position, angle)\<close>; the parameter \<^verbatim>\<open>_position\<close> is \<open>position0\<close> here.
  The call \<^verbatim>\<open>offset.orientation.matrixTransform()\<close> computes a point that is not used.
\<close>

definition setOffset :: "three_xr_session \<Rightarrow> vec3 \<Rightarrow> real \<Rightarrow> three_xr_session" where
  "setOffset this position0 angle =
     (let rotation = setFromAxisAngle (Vector3 0 1 0) (- angle);
          position = applyQuaternion (negate position0) rotation;
          offset = XRRigidTransform position rotation;
          offsetSpace = getOffsetReferenceSpace (baseReferenceSpace this) offset
      in this\<lparr>webxrManager := setReferenceSpace (webxrManager this) offsetSpace\<rparr>)"

section \<open>TeleportationControls: the aiming state machine\<close>

text \<open>
  \<open>isTeleporting\<close> is the state: \<open>False\<close> is Idle, \<open>True\<close> is Aiming. The field
  \<^verbatim>\<open>controller\<close> of the class refers to the target-ray space of the controller slot;
  the functions that read it take that space as an argument. The method \<^verbatim>\<open>_stop\<close> is
  \<open>stop\<close> here.
\<close>

record teleportation_controls =
  isTeleporting :: bool
  teleportationAngle :: real
  teleportationArc :: teleportation_arc

definition start :: "teleportation_controls \<Rightarrow> teleportation_controls" where
  "start this = this\<lparr>isTeleporting := True\<rparr>"

definition TeleportationControls_update ::
  "teleportation_controls \<Rightarrow> xr_target_ray_space \<Rightarrow> object3d \<Rightarrow> real \<Rightarrow> teleportation_controls" where
  "TeleportationControls_update this ctrl object angle =
     (let this1 =
            (if isTeleporting this then
               (let arc = (teleportationArc this)
                            \<lparr>arc_position := space_position ctrl,
                             arc_quaternion := space_quaternion ctrl\<rparr>
                in this\<lparr>teleportationAngle := angle,
                        teleportationArc := TeleportationArc_update arc object angle\<rparr>)
             else this)
      in this1\<lparr>teleportationArc :=
                 (teleportationArc this1)\<lparr>line_visible := isTeleporting this1\<rparr>\<rparr>)"

definition stop :: "teleportation_controls \<Rightarrow> teleportation_controls" where
  "stop this =
     this\<lparr>isTeleporting := False,
          teleportationArc :=
            (teleportationArc this)
              \<lparr>line_visible := False,
               marker := (marker (teleportationArc this))\<lparr>marker_visible := False\<rparr>\<rparr>\<rparr>"

definition cancel :: "teleportation_controls \<Rightarrow> teleportation_controls" where
  "cancel this = stop this"

definition commit ::
  "teleportation_controls \<Rightarrow> three_xr_session \<Rightarrow> teleportation_controls \<times> three_xr_session" where
  "commit this session =
     (let this1 = stop this
      in (this1,
          setOffset session (marker_position (marker (teleportationArc this1)))
            (teleportationAngle this1)))"

section \<open>The per-frame driving loop of a controller slot\<close>

text \<open>
  \<^verbatim>\<open>Math.atan2\<close> on the reals, \<^verbatim>\<open>Vector2.angle()\<close> of the vector \<open>(x, y)\<close>, and the
  \<open>y\<close> component of \<^verbatim>\<open>Euler.setFromQuaternion(q, "YXZ")\<close>, which three.js reads off
  the rotation matrix of the quaternion.
\<close>

definition atan2 :: "real \<Rightarrow> real \<Rightarrow> real" where
  "atan2 y x =
     (if 0 < x then arctan (y / x)
      else if x < 0 then (if 0 \<le> y then arctan (y / x) + pi else arctan (y / x) - pi)
      else if 0 < y then pi / 2
      else if y < 0 then - pi / 2
      else 0)"

definition Vector2_angle :: "real \<Rightarrow> real \<Rightarrow> real" where
  "Vector2_angle x y = atan2 (- y) (- x) + pi"

definition euler_YXZ_y :: "quat \<Rightarrow> real" where
  "euler_YXZ_y q =
     (let m11 = 1 - (qy q * (qy q + qy q) + qz q * (qz q + qz q));
          m13 = qx q * (qz q + qz q) + qw q * (qy q + qy q);
          m23 = qy q * (qz q + qz q) - qw q * (qx q + qx q);
          m31 = qx q * (qz q + qz q) - qw q * (qy q + qy q);
          m33 = 1 - (qx q * (qx q + qx q) + qy q * (qy q + qy q))
      in if \<bar>m23\<bar> < 0.9999999 then atan2 m13 m33 else atan2 (- m31) m11)"

text \<open>
  \<^verbatim>\<open>Object3D.translateY(d)\<close> on an unrotated node, in terms of what ray casting sees: the
  moved node is hit where the unmoved one is hit by the ray moved back, with the hit
  points moved along.
\<close>

definition shift_y :: "real \<Rightarrow> vec3 \<Rightarrow> vec3" where
  "shift_y d p = Vector3 (vx p) (vy p + d) (vz p)"

fun translateY :: "real \<Rightarrow> object3d \<Rightarrow> object3d" where
  "translateY d (Object3D rc cs) =
     Object3D
       (\<lambda>r near far.
          map (\<lambda>i. i\<lparr>point := shift_y d (point i)\<rparr>)
            (rc (r\<lparr>origin := shift_y (- d) (origin r)\<rparr>) near far))
       (map (translateY d) cs)"

text \<open>
  The state the closure \<^verbatim>\<open>update\<close> of \<^verbatim>\<open>createController\<close> works on. The variable
  \<^verbatim>\<open>marker\<close> of the closure is the marker of the arc.
\<close>

record controller_slot =
  threeController :: three_xr_controller
  teleportationControls :: teleportation_controls
  session :: three_xr_session
  house :: object3d

text \<open>\<^verbatim>\<open>buttonPressed?.[i]\<close> as a condition: an index past the end is \<^verbatim>\<open>undefined\<close>.\<close>

definition truthy_at :: "bool list \<Rightarrow> nat \<Rightarrow> bool" where
  "truthy_at bs i = (i < length bs \<and> bs ! i)"

text \<open>
  One call of \<^verbatim>\<open>update\<close>. The destructuring \<^verbatim>\<open>[, , x, y] = gamepad.axes\<close> reads the third
  and fourth axis. With fewer than four axes the code would go on with \<^verbatim>\<open>undefined\<close>
  and \<^verbatim>\<open>NaN\<close>, which the reals do not have: the result is \<open>None\<close> then. The constructor
  of the connected controller rejects such a gamepad.
\<close>

definition update :: "controller_slot \<Rightarrow> controller_slot option" where
  "update s =
     (case connectedController (threeController s) of
        None \<Rightarrow> Some s
      | Some cc \<Rightarrow>
          (case axes (cc_gamepad cc) of
             _ # _ # x # y # _ \<Rightarrow>
               (let gamepadStickAngle = Vector2_angle (- y) (- x);
                    controllerAngle =
                      euler_YXZ_y (space_quaternion (controller (threeController s)));
                    teleportAngle = gamepadStickAngle + controllerAngle;
                    s1 =
                      (if isTeleporting (teleportationControls s) then
                         (if x = 0 \<and> y = 0 then
                            (if marker_visible (marker (teleportationArc (teleportationControls s)))
                             then
                               (case commit (teleportationControls s) (session s) of
                                  (tc, ses) \<Rightarrow> s\<lparr>teleportationControls := tc, session := ses\<rparr>)
                             else s\<lparr>teleportationControls := cancel (teleportationControls s)\<rparr>)
                          else
                            s\<lparr>teleportationControls :=
                                TeleportationControls_update (teleportationControls s)
                                  (controller (threeController s)) (house s) teleportAngle\<rparr>)
                       else
                         (if sqrt (x * x + y * y) > 0.5
                          then s\<lparr>teleportationControls := start (teleportationControls s)\<rparr>
                          else s));
                    bs = buttons (cc_gamepad cc);
                    buttonStates = bs;
                    buttonPressed = map (\<lambda>(button, index). button \<and> \<not> truthy_at buttonStates index)
                                      (zip bs [0..<length bs]);
                    s2 = (if truthy_at buttonPressed 5
                          then s1\<lparr>house := translateY (- 2.5) (house s1)\<rparr> else s1);
                    s3 = (if truthy_at buttonPressed 4
                          then s2\<lparr>house := translateY 2.5 (house s2)\<rparr> else s2)
                in Some s3)
           | _ \<Rightarrow> None))"

text \<open>
  The slot as \<^verbatim>\<open>createController\<close> sets it up: the marker hidden, the arc with gravity
  \<open>(0, -0.1, 0)\<close> and the default validity predicate, the controls idle. A new three.js
  node is at the origin, unrotated and visible, so the line of the arc starts visible
  (with no points).
\<close>

definition identity_quaternion :: quat where
  "identity_quaternion = Quaternion 0 0 0 1"

definition createController ::
  "xr_target_ray_space \<Rightarrow> object3d \<Rightarrow> three_xr_session \<Rightarrow> controller_slot" where
  "createController ctrl scene_house ses =
     \<lparr>threeController = \<lparr>controller = ctrl, connectedController = None\<rparr>,
      teleportationControls =
        \<lparr>isTeleporting = False,
         teleportationAngle = 0,
         teleportationArc =
           \<lparr>arccaster = \<lparr>gravity = Vector3 0 (- 0.1) 0\<rparr>,
            marker = \<lparr>marker_position = Vector3 0 0 0,
                      marker_quaternion = identity_quaternion,
                      marker_visible = False\<rparr>,
            validateIntersection = isGroundIntersection,
            arc_position = Vector3 0 0 0,
            arc_quaternion = identity_quaternion,
            line_points = [],
            line_visible = True\<rparr>\<rparr>,
      session = ses,
      house = scene_house\<rparr>"

section \<open>Properties of the controller connection\<close>

text \<open>
  C8. Connecting fails fast: constructing the connected controller for a device with no
  gamepad, or with a gamepad of fewer than four axes, throws, also when it is constructed
  by the handler of the connected event; and a connected event for a slot that already
  has a connected controller throws, so that the slot is not overwritten.
\<close>

theorem connection_fails_fast:
  "(input_gamepad src = None \<longrightarrow> ThreeXRConnectedController src = Inl GamepadNotAvailable) \<and>
   (\<forall>g. input_gamepad src = Some g \<and> length (axes g) < 4 \<longrightarrow>
        ThreeXRConnectedController src = Inl GamepadAxesNotAvailable) \<and>
   (connectedController this = None \<and> input_gamepad src = None \<longrightarrow>
        handleControllerConnected this src = Inl GamepadNotAvailable) \<and>
   (\<forall>g. connectedController this = None \<and> input_gamepad src = Some g \<and> length (axes g) < 4 \<longrightarrow>
        handleControllerConnected this src = Inl GamepadAxesNotAvailable) \<and>
   (\<forall>c. connectedController this = Some c \<longrightarrow>
        handleControllerConnected this src = Inl ControllerAlreadyConnected)"
  by (simp add: ThreeXRConnectedController_def handleControllerConnected_def)

text \<open>A gamepad with the stick at \<open>(x, y)\<close> and six released buttons.\<close>

definition example_gamepad :: "real \<Rightarrow> real \<Rightarrow> gamepad" where
  "example_gamepad x y = \<lparr>axes = [0, 0, x, y], buttons = [False, False, False, False, False, False]\<rparr>"

theorem connection_fails_fast_witness:
  "ThreeXRConnectedController \<lparr>targetRayMode = TrackedPointer, input_gamepad = None\<rparr>
     = Inl GamepadNotAvailable \<and>
   ThreeXRConnectedController
     \<lparr>targetRayMode = TrackedPointer, input_gamepad = Some \<lparr>axes = [0, 0], buttons = []\<rparr>\<rparr>
     = Inl GamepadAxesNotAvailable \<and>
   handleControllerConnected
     \<lparr>controller = \<lparr>space_position = Vector3 0 0 0, space_quaternion = identity_quaternion\<rparr>,
      connectedController = None\<rparr>
     \<lparr>targetRayMode = TrackedPointer, input_gamepad = Some \<lparr>axes = [0, 0], buttons = []\<rparr>\<rparr>
     = Inl GamepadAxesNotAvailable \<and>
   handleControllerConnected
     \<lparr>controller = \<lparr>space_position = Vector3 0 0 0, space_quaternion = identity_quaternion\<rparr>,
      connectedController =
        Some \<lparr>cc_gamepad = example_gamepad 0 0, controllerMesh = TrackedPointerLine\<rparr>\<rparr>
     \<lparr>targetRayMode = TrackedPointer, input_gamepad = Some (example_gamepad 0 0)\<rparr>
     = Inl ControllerAlreadyConnected"
  using connection_fails_fast [of "\<lparr>targetRayMode = TrackedPointer, input_gamepad = None\<rparr>"
      "\<lparr>controller = \<lparr>space_position = Vector3 0 0 0, space_quaternion = identity_quaternion\<rparr>,
      connectedController = None\<rparr>"]
    connection_fails_fast [of
      "\<lparr>targetRayMode = TrackedPointer, input_gamepad = Some \<lparr>axes = [0, 0], buttons = []\<rparr>\<rparr>"
      "\<lparr>controller = \<lparr>space_position = Vector3 0 0 0, space_quaternion = identity_quaternion\<rparr>,
      connectedController = None\<rparr>"]
    connection_fails_fast [of
      "\<lparr>targetRayMode = TrackedPointer, input_gamepad = Some (example_gamepad 0 0)\<rparr>"
      "\<lparr>controller = \<lparr>space_position = Vector3 0 0 0, space_quaternion = identity_quaternion\<rparr>,
      connectedController =
        Some \<lparr>cc_gamepad = example_gamepad 0 0, controllerMesh = TrackedPointerLine\<rparr>\<rparr>"]
  by simp

section \<open>Properties of the marker\<close>

text \<open>
  C4. After every update of the arc the marker is visible exactly when the simulation
  returned a collision and the validity predicate accepts it; the default predicate
  accepts exactly the hits whose normal has a \<open>y\<close> component above 0.9: a normal with
  \<open>y = 0.91\<close> is accepted, one with \<open>y = 0.89\<close> is rejected.
\<close>

theorem marker_visible_iff_valid_collision:
  "marker_visible (marker (TeleportationArc_update this object angle)) =
     (case intersection (intersectObject (arccaster this) object (arc_position this)
                           (arc_quaternion this)) of
        None \<Rightarrow> False
      | Some i \<Rightarrow> validateIntersection this i) \<and>
   isGroundIntersection i = (\<exists>n. normal i = Some n \<and> 0.9 < vy n) \<and>
   isGroundIntersection (i\<lparr>normal := Some (Vector3 a 0.91 c)\<rparr>) \<and>
   \<not> isGroundIntersection (i\<lparr>normal := Some (Vector3 a 0.89 c)\<rparr>)"
  by (auto simp add: TeleportationArc_update_def Let_def isGroundIntersection_def
      split: option.splits)

text \<open>When the ray of the first segment hits, the simulation stops there.\<close>

lemma intersectObject_first_hit:
  "Raycaster_intersectObject object True
     \<lparr>origin = position,
      direction = normalize (sub (addScaledVector position
         (addScaledVector (applyQuaternion (Vector3 0 0 (- 1)) rotation) (gravity this) 0.2) 0.2) position)\<rparr>
     0 (distanceTo position (addScaledVector position
         (addScaledVector (applyQuaternion (Vector3 0 0 (- 1)) rotation) (gravity this) 0.2) 0.2))
     = h # hs \<Longrightarrow>
   intersectObject this object position rotation =
     \<lparr>trace = [position, point h], intersection = Some h\<rparr>"
  unfolding intersectObject_def
  by (subst arc_loop.simps) (simp add: Let_def step_def)

text \<open>
  C9. The default validity predicate is defined on a hit without a surface normal and
  rejects it (a missing normal counts as \<open>y = 0\<close>); when the simulation returns such
  a hit, the update of the arc leaves the marker hidden.
\<close>

theorem default_predicate_rejects_missing_normal:
  "normal i = None \<Longrightarrow>
   \<not> isGroundIntersection i \<and>
   (validateIntersection this = isGroundIntersection \<longrightarrow>
    intersection (intersectObject (arccaster this) object (arc_position this)
                    (arc_quaternion this)) = Some i \<longrightarrow>
    \<not> marker_visible (marker (TeleportationArc_update this object angle)))"
  by (simp add: TeleportationArc_update_def Let_def isGroundIntersection_def)

text \<open>
  Example values: a hit without a normal (as a line or point cloud reports it) and a
  scene that reports it for every ray; the pose of a controller; a session with no
  reference space installed yet; a freshly created controller slot.
\<close>

definition normalless_hit :: intersection where
  "normalless_hit = \<lparr>distance = 0, point = Vector3 0 0 0, object_name = ''line'', normal = None\<rparr>"

definition normalless_scene :: object3d where
  "normalless_scene = Object3D (\<lambda>r near far. [normalless_hit]) []"

definition example_space :: xr_target_ray_space where
  "example_space = \<lparr>space_position = Vector3 0 1 0, space_quaternion = identity_quaternion\<rparr>"

definition example_session :: three_xr_session where
  "example_session = \<lparr>webxrManager = \<lparr>installed = []\<rparr>, baseReferenceSpace = LocalFloor\<rparr>"

definition new_slot :: controller_slot where
  "new_slot = createController example_space empty_scene example_session"

theorem default_predicate_rejects_missing_normal_witness:
  "normal normalless_hit = None \<and>
   \<not> isGroundIntersection normalless_hit \<and>
   intersection (intersectObject (arccaster (teleportationArc (teleportationControls new_slot)))
      normalless_scene (arc_position (teleportationArc (teleportationControls new_slot)))
      (arc_quaternion (teleportationArc (teleportationControls new_slot)))) = Some normalless_hit \<and>
   \<not> marker_visible (marker (TeleportationArc_update
        (teleportationArc (teleportationControls new_slot)) normalless_scene 0))"
proof -
  let ?arc = "teleportationArc (teleportationControls new_slot)"
  have n: "normal normalless_hit = None"
    by (simp add: normalless_hit_def)
  have v: "validateIntersection ?arc = isGroundIntersection"
    by (simp add: new_slot_def createController_def)
  have "Raycaster_intersectObject normalless_scene True r near far = [normalless_hit]" for r near far
    by (simp add: Raycaster_intersectObject_def normalless_scene_def)
  then have h: "intersection (intersectObject (arccaster ?arc) normalless_scene (arc_position ?arc)
                  (arc_quaternion ?arc)) = Some normalless_hit"
    by (simp add: intersectObject_first_hit)
  from default_predicate_rejects_missing_normal [OF n, of ?arc normalless_scene 0] n v h
  show ?thesis by simp
qed

section \<open>Properties of the driving loop\<close>

text \<open>
  The button code compares the \<open>pressed\<close> flag of every button with itself, so no
  button ever counts as pressed and the house is never moved.
\<close>

lemma buttonPressed_never:
  "\<not> truthy_at (map (\<lambda>(button, index). button \<and> \<not> truthy_at bs index) (zip bs [0..<length bs])) k"
  by (auto simp add: truthy_at_def)

lemma update_connected:
  assumes "connectedController (threeController s) = Some cc"
    and "axes (cc_gamepad cc) = a0 # a1 # x # y # rest"
  shows "update s =
     Some (if isTeleporting (teleportationControls s) then
             (if x = 0 \<and> y = 0 then
                (if marker_visible (marker (teleportationArc (teleportationControls s))) then
                   s\<lparr>teleportationControls := fst (commit (teleportationControls s) (session s)),
                     session := snd (commit (teleportationControls s) (session s))\<rparr>
                 else s\<lparr>teleportationControls := cancel (teleportationControls s)\<rparr>)
              else
                s\<lparr>teleportationControls :=
                    TeleportationControls_update (teleportationControls s)
                      (controller (threeController s)) (house s)
                      (Vector2_angle (- y) (- x)
                       + euler_YXZ_y (space_quaternion (controller (threeController s))))\<rparr>)
           else
             (if sqrt (x * x + y * y) > 0.5
              then s\<lparr>teleportationControls := start (teleportationControls s)\<rparr>
              else s))"
  using assms
  by (simp add: update_def Let_def buttonPressed_never split: prod.splits)

lemma sqrt_small: "\<not> sqrt (0.1 * 0.1 + 0.1 * 0.1) > (0.5::real)"
proof -
  have "sqrt (0.1 * 0.1 + 0.1 * 0.1) \<le> sqrt ((0.5::real)\<^sup>2)"
    by (intro real_sqrt_le_mono) (simp add: power2_eq_square)
  then show ?thesis by simp
qed

lemma sqrt_large: "sqrt (0.4 * 0.4 + 0.4 * 0.4) > (0.5::real)"
proof -
  have "sqrt ((0.5::real)\<^sup>2) < sqrt (0.4 * 0.4 + 0.4 * 0.4)"
    by (intro real_sqrt_less_mono) (simp add: power2_eq_square)
  then show ?thesis by simp
qed

lemma setOffset_installs_one:
  "installed (webxrManager (setOffset ses p a)) =
     installed (webxrManager ses)
     @ [OffsetSpace (baseReferenceSpace ses)
          (XRRigidTransform (applyQuaternion (negate p) (setFromAxisAngle (Vector3 0 1 0) (- a)))
             (setFromAxisAngle (Vector3 0 1 0) (- a)))]"
  by (simp add: setOffset_def Let_def setReferenceSpace_def getOffsetReferenceSpace_def)

text \<open>
  C3 (as amended). For a connected controller with stick axes \<open>(x, y)\<close> at positions
  3 and 4 of the axes array: Idle with \<open>(0.1, 0.1)\<close> stays Idle (nothing changes);
  Idle with \<open>(0.4, 0.4)\<close> becomes Aiming; Aiming with \<open>(0, 0)\<close> and the marker visible
  becomes Idle with exactly one call of \<open>setOffset\<close>, on the marker position and the
  stored heading; Aiming with \<open>(0, 0)\<close> and the marker hidden becomes Idle with no call
  of \<open>setOffset\<close>. \<open>cancel\<close> on an Idle controller keeps it Idle and changes nothing
  but the visibility of the line and the marker, which it forces to hidden; it is a
  no-op when both are hidden already.
\<close>

theorem driving_policy:
  assumes "connectedController (threeController s) = Some cc"
  shows
    "(\<not> isTeleporting (teleportationControls s)
        \<and> axes (cc_gamepad cc) = a0 # a1 # 0.1 # 0.1 # rest \<longrightarrow> update s = Some s) \<and>
     (\<not> isTeleporting (teleportationControls s)
        \<and> axes (cc_gamepad cc) = a0 # a1 # 0.4 # 0.4 # rest \<longrightarrow>
        (\<exists>s'. update s = Some s' \<and> isTeleporting (teleportationControls s')
              \<and> session s' = session s)) \<and>
     (isTeleporting (teleportationControls s)
        \<and> axes (cc_gamepad cc) = a0 # a1 # 0 # 0 # rest
        \<and> marker_visible (marker (teleportationArc (teleportationControls s))) \<longrightarrow>
        (\<exists>s'. update s = Some s' \<and> \<not> isTeleporting (teleportationControls s')
              \<and> session s' =
                  setOffset (session s)
                    (marker_position (marker (teleportationArc (teleportationControls s))))
                    (teleportationAngle (teleportationControls s))
              \<and> length (installed (webxrManager (session s')))
                  = length (installed (webxrManager (session s))) + 1)) \<and>
     (isTeleporting (teleportationControls s)
        \<and> axes (cc_gamepad cc) = a0 # a1 # 0 # 0 # rest
        \<and> \<not> marker_visible (marker (teleportationArc (teleportationControls s))) \<longrightarrow>
        (\<exists>s'. update s = Some s' \<and> \<not> isTeleporting (teleportationControls s')
              \<and> session s' = session s)) \<and>
     (\<not> isTeleporting tc \<longrightarrow>
        cancel tc =
          tc\<lparr>teleportationArc :=
               (teleportationArc tc)
                 \<lparr>line_visible := False,
                  marker := (marker (teleportationArc tc))\<lparr>marker_visible := False\<rparr>\<rparr>\<rparr>) \<and>
     (\<not> isTeleporting tc \<and> \<not> line_visible (teleportationArc tc)
        \<and> \<not> marker_visible (marker (teleportationArc tc)) \<longrightarrow> cancel tc = tc)"
proof (intro conjI impI)
  assume a: "\<not> isTeleporting (teleportationControls s)
        \<and> axes (cc_gamepad cc) = a0 # a1 # 0.1 # 0.1 # rest"
  then have "axes (cc_gamepad cc) = a0 # a1 # 0.1 # 0.1 # rest" by simp
  from update_connected [OF assms this] a sqrt_small
  show "update s = Some s" by simp
next
  assume a: "\<not> isTeleporting (teleportationControls s)
        \<and> axes (cc_gamepad cc) = a0 # a1 # 0.4 # 0.4 # rest"
  then have "axes (cc_gamepad cc) = a0 # a1 # 0.4 # 0.4 # rest" by simp
  from update_connected [OF assms this] a sqrt_large
  show "\<exists>s'. update s = Some s' \<and> isTeleporting (teleportationControls s')
              \<and> session s' = session s"
    by (simp add: start_def)
next
  assume a: "isTeleporting (teleportationControls s)
        \<and> axes (cc_gamepad cc) = a0 # a1 # 0 # 0 # rest
        \<and> marker_visible (marker (teleportationArc (teleportationControls s)))"
  then have "axes (cc_gamepad cc) = a0 # a1 # 0 # 0 # rest" by simp
  from update_connected [OF assms this] a
  show "\<exists>s'. update s = Some s' \<and> \<not> isTeleporting (teleportationControls s')
              \<and> session s' =
                  setOffset (session s)
                    (marker_position (marker (teleportationArc (teleportationControls s))))
                    (teleportationAngle (teleportationControls s))
              \<and> length (installed (webxrManager (session s')))
                  = length (installed (webxrManager (session s))) + 1"
    by (simp add: commit_def stop_def Let_def setOffset_installs_one)
next
  assume a: "isTeleporting (teleportationControls s)
        \<and> axes (cc_gamepad cc) = a0 # a1 # 0 # 0 # rest
        \<and> \<not> marker_visible (marker (teleportationArc (teleportationControls s)))"
  then have "axes (cc_gamepad cc) = a0 # a1 # 0 # 0 # rest" by simp
  from update_connected [OF assms this] a
  show "\<exists>s'. update s = Some s' \<and> \<not> isTeleporting (teleportationControls s')
              \<and> session s' = session s"
    by (simp add: cancel_def stop_def)
next
  assume "\<not> isTeleporting tc"
  then show "cancel tc =
          tc\<lparr>teleportationArc :=
               (teleportationArc tc)
                 \<lparr>line_visible := False,
                  marker := (marker (teleportationArc tc))\<lparr>marker_visible := False\<rparr>\<rparr>\<rparr>"
    by (simp add: cancel_def stop_def)
next
  assume "\<not> isTeleporting tc \<and> \<not> line_visible (teleportationArc tc)
        \<and> \<not> marker_visible (marker (teleportationArc tc))"
  then show "cancel tc = tc"
    by (simp add: cancel_def stop_def)
qed

text \<open>
  On a freshly created slot the controller is Idle and the line of the arc is visible
  (the default of a scene node): \<open>cancel\<close> hides it, so it is not a no-op there.
\<close>

theorem cancel_idle_counterexample:
  "\<not> isTeleporting (teleportationControls new_slot) \<and>
   cancel (teleportationControls new_slot) \<noteq> teleportationControls new_slot"
proof -
  have "line_visible (teleportationArc (teleportationControls new_slot))"
    by (simp add: new_slot_def createController_def)
  moreover have "\<not> line_visible (teleportationArc (cancel (teleportationControls new_slot)))"
    by (simp add: cancel_def stop_def)
  ultimately have "cancel (teleportationControls new_slot) \<noteq> teleportationControls new_slot"
    by metis
  then show ?thesis
    by (simp add: new_slot_def createController_def)
qed

text \<open>
  The listeners that the constructor of \<^verbatim>\<open>ThreeXRController\<close> registers for the
  \<^verbatim>\<open>connected\<close> and \<^verbatim>\<open>disconnected\<close> events of the slot: they change the controller
  object of the slot and nothing else.
\<close>

definition slot_connected :: "controller_slot \<Rightarrow> xr_input_source \<Rightarrow> error + controller_slot" where
  "slot_connected s data =
     (case handleControllerConnected (threeController s) data of
        Inl e \<Rightarrow> Inl e
      | Inr c \<Rightarrow> Inr (s\<lparr>threeController := c\<rparr>))"

definition slot_disconnected :: "controller_slot \<Rightarrow> controller_slot" where
  "slot_disconnected s = s\<lparr>threeController := handleControllerDisconnected (threeController s)\<rparr>"

text \<open>
  The new slot with a connected controller whose stick is at \<open>(x, y)\<close>, and an Aiming
  slot with the stick released and the marker visible or hidden.
\<close>

definition connected_slot :: "real \<Rightarrow> real \<Rightarrow> controller_slot" where
  "connected_slot x y =
     new_slot\<lparr>threeController :=
                \<lparr>controller = example_space,
                 connectedController =
                   Some \<lparr>cc_gamepad = example_gamepad x y, controllerMesh = TrackedPointerLine\<rparr>\<rparr>\<rparr>"

definition aiming_slot :: "bool \<Rightarrow> controller_slot" where
  "aiming_slot visible =
     (connected_slot 0 0)
       \<lparr>teleportationControls :=
          \<lparr>isTeleporting = True,
           teleportationAngle = 0,
           teleportationArc =
             (teleportationArc (teleportationControls new_slot))
               \<lparr>marker := \<lparr>marker_position = Vector3 0 0 (- 1),
                           marker_quaternion = identity_quaternion,
                           marker_visible = visible\<rparr>\<rparr>\<rparr>\<rparr>"

lemma slot_connected_new_slot:
  "slot_connected new_slot
     \<lparr>targetRayMode = TrackedPointer, input_gamepad = Some (example_gamepad x y)\<rparr>
   = Inr (connected_slot x y)"
  by (simp add: slot_connected_def handleControllerConnected_def ThreeXRConnectedController_def
      connected_slot_def new_slot_def createController_def example_gamepad_def)

theorem driving_policy_witness:
  "update (connected_slot 0.1 0.1) = Some (connected_slot 0.1 0.1) \<and>
   (\<exists>s'. update (connected_slot 0.4 0.4) = Some s' \<and> isTeleporting (teleportationControls s')
         \<and> session s' = session (connected_slot 0.4 0.4)) \<and>
   (\<exists>s'. update (aiming_slot True) = Some s' \<and> \<not> isTeleporting (teleportationControls s')
         \<and> length (installed (webxrManager (session s'))) = 1) \<and>
   (\<exists>s'. update (aiming_slot False) = Some s' \<and> \<not> isTeleporting (teleportationControls s')
         \<and> length (installed (webxrManager (session s'))) = 0) \<and>
   cancel (stop (teleportationControls new_slot)) = stop (teleportationControls new_slot)"
proof -
  let ?cc = "\<lambda>x y. \<lparr>cc_gamepad = example_gamepad x y, controllerMesh = TrackedPointerLine\<rparr>"
  have c: "connectedController (threeController (connected_slot x y)) = Some (?cc x y)" for x y
    by (simp add: connected_slot_def)
  have ca: "connectedController (threeController (aiming_slot v)) = Some (?cc 0 0)" for v
    by (simp add: aiming_slot_def connected_slot_def)
  have ax: "axes (cc_gamepad (?cc x y)) = 0 # 0 # x # y # []" for x y
    by (simp add: example_gamepad_def)
  have idle: "\<not> isTeleporting (teleportationControls (connected_slot x y))" for x y
    by (simp add: connected_slot_def new_slot_def createController_def)
  have aim: "isTeleporting (teleportationControls (aiming_slot v))"
    "marker_visible (marker (teleportationArc (teleportationControls (aiming_slot v)))) = v"
    "installed (webxrManager (session (aiming_slot v))) = []" for v
    by (simp_all add: aiming_slot_def connected_slot_def new_slot_def createController_def
        example_session_def)
  have stopped: "\<not> isTeleporting (stop (teleportationControls new_slot))"
    "\<not> line_visible (teleportationArc (stop (teleportationControls new_slot)))"
    "\<not> marker_visible (marker (teleportationArc (stop (teleportationControls new_slot))))"
    by (simp_all add: stop_def)
  from driving_policy [OF c, of "0.1" "0.1" 0 0 "[]" "stop (teleportationControls new_slot)"]
    idle [of "0.1" "0.1"] ax [of "0.1" "0.1"] stopped
  have 1: "update (connected_slot 0.1 0.1) = Some (connected_slot 0.1 0.1)"
    and 5: "cancel (stop (teleportationControls new_slot)) = stop (teleportationControls new_slot)"
    by simp_all
  from driving_policy [OF c, of "0.4" "0.4" 0 0 "[]"] idle [of "0.4" "0.4"] ax [of "0.4" "0.4"]
  have 2: "\<exists>s'. update (connected_slot 0.4 0.4) = Some s' \<and> isTeleporting (teleportationControls s')
         \<and> session s' = session (connected_slot 0.4 0.4)"
    by simp
  from driving_policy [OF ca, of True 0 0 "[]"] aim [of True] ax [of 0 0]
  have 3: "\<exists>s'. update (aiming_slot True) = Some s' \<and> \<not> isTeleporting (teleportationControls s')
         \<and> length (installed (webxrManager (session s'))) = 1"
    by auto
  from driving_policy [OF ca, of False 0 0 "[]"] aim [of False] ax [of 0 0]
  obtain s' where "update (aiming_slot False) = Some s'"
    "\<not> isTeleporting (teleportationControls s')" "session s' = session (aiming_slot False)"
    by auto
  with aim(3) [of False]
  have 4: "\<exists>s'. update (aiming_slot False) = Some s' \<and> \<not> isTeleporting (teleportationControls s')
         \<and> length (installed (webxrManager (session s'))) = 0"
    by simp
  from 1 2 3 4 5 show ?thesis by blast
qed

section \<open>Disconnecting while aiming\<close>

text \<open>
  C6 (as amended). A disconnect event only clears the connected controller of the slot:
  the teleportation controls (the state, the visibility of the line and of the marker)
  and the session with its active reference space stay as they are, and the per-frame
  update that follows returns at once and changes nothing.
\<close>

theorem disconnect_leaves_controls:
  "teleportationControls (slot_disconnected s) = teleportationControls s \<and>
   session (slot_disconnected s) = session s \<and>
   connectedController (threeController (slot_disconnected s)) = None \<and>
   update (slot_disconnected s) = Some (slot_disconnected s)"
  by (simp add: slot_disconnected_def handleControllerDisconnected_def update_def
      split: option.splits)

text \<open>
  The slot after one frame with the stick at \<open>(0.4, 0.4)\<close>: Aiming. A disconnect in
  this state leaves it Aiming with the line visible.
\<close>

definition started_slot :: controller_slot where
  "started_slot =
     (connected_slot 0.4 0.4)
       \<lparr>teleportationControls := start (teleportationControls (connected_slot 0.4 0.4))\<rparr>"

theorem disconnect_counterexample:
  "update (connected_slot 0.4 0.4) = Some started_slot \<and>
   isTeleporting (teleportationControls started_slot) \<and>
   isTeleporting (teleportationControls (slot_disconnected started_slot)) \<and>
   line_visible (teleportationArc (teleportationControls (slot_disconnected started_slot)))"
proof -
  have c: "connectedController (threeController (connected_slot 0.4 0.4)) =
        Some \<lparr>cc_gamepad = example_gamepad 0.4 0.4, controllerMesh = TrackedPointerLine\<rparr>"
    by (simp add: connected_slot_def)
  have ax: "axes (cc_gamepad \<lparr>cc_gamepad = example_gamepad 0.4 0.4,
                               controllerMesh = TrackedPointerLine\<rparr>) = 0 # 0 # 0.4 # 0.4 # []"
    by (simp add: example_gamepad_def)
  have idle: "\<not> isTeleporting (teleportationControls (connected_slot 0.4 0.4))"
    by (simp add: connected_slot_def new_slot_def createController_def)
  from update_connected [OF c ax] idle sqrt_large
  have "update (connected_slot 0.4 0.4) = Some started_slot"
    by (simp add: started_slot_def)
  moreover have "isTeleporting (teleportationControls started_slot)"
    by (simp add: started_slot_def start_def)
  moreover have "line_visible (teleportationArc (teleportationControls started_slot))"
    by (simp add: started_slot_def start_def connected_slot_def new_slot_def createController_def)
  ultimately show ?thesis
    by (simp add: slot_disconnected_def)
qed

section \<open>The update of the controls while Idle\<close>

text \<open>
  While Idle, \<^verbatim>\<open>TeleportationControls.update\<close> skips the branch that stores the angle and
  updates the arc; it writes the visibility of the line and nothing else.
\<close>

lemma idle_update_effect:
  "\<not> isTeleporting this \<Longrightarrow>
   TeleportationControls_update this ctrl object angle =
     this\<lparr>teleportationArc := (teleportationArc this)\<lparr>line_visible := False\<rparr>\<rparr>"
  by (simp add: TeleportationControls_update_def Let_def)

text \<open>
  The states of the controls that the program can be in: \<^verbatim>\<open>createController\<close> builds the
  controls, and from then on they change only through calls of their methods. A call is
  one of \<^verbatim>\<open>start()\<close>, \<^verbatim>\<open>update(object, angle)\<close> (with the pose of the controller at
  that time), \<^verbatim>\<open>cancel()\<close> and \<^verbatim>\<open>commit(session)\<close>.
\<close>

datatype controls_call =
    Start
  | Update xr_target_ray_space object3d real
  | Cancel
  | Commit three_xr_session

fun call :: "controls_call \<Rightarrow> teleportation_controls \<Rightarrow> teleportation_controls" where
  "call Start this = start this"
| "call (Update ctrl object angle) this = TeleportationControls_update this ctrl object angle"
| "call Cancel this = cancel this"
| "call (Commit ses) this = fst (commit this ses)"

definition run_calls :: "controls_call list \<Rightarrow> teleportation_controls \<Rightarrow> teleportation_controls" where
  "run_calls calls this = foldl (\<lambda>t c. call c t) this calls"

text \<open>
  The marker is shown only by the update of the arc, which runs only while Aiming, and
  every way back to Idle hides it: whenever the controls are Idle the marker is hidden.
\<close>

lemma call_idle_marker_hidden:
  assumes "\<not> isTeleporting this \<longrightarrow> \<not> marker_visible (marker (teleportationArc this))"
  shows "\<not> isTeleporting (call c this)
         \<longrightarrow> \<not> marker_visible (marker (teleportationArc (call c this)))"
  using assms
  by (cases c)
     (simp_all add: start_def cancel_def commit_def stop_def TeleportationControls_update_def
        Let_def)

lemma run_calls_idle_marker_hidden:
  assumes "\<not> isTeleporting this \<longrightarrow> \<not> marker_visible (marker (teleportationArc this))"
  shows "\<not> isTeleporting (run_calls calls this)
         \<longrightarrow> \<not> marker_visible (marker (teleportationArc (run_calls calls this)))"
  using assms unfolding run_calls_def
proof (induction calls arbitrary: this)
  case Nil
  then show ?case by simp
next
  case (Cons c calls)
  from Cons.IH [OF call_idle_marker_hidden [OF Cons.prems, of c]]
  show ?case by simp
qed

lemma created_idle_marker_hidden:
  "\<not> isTeleporting (teleportationControls (createController ctrl0 scene0 ses0)) \<and>
   \<not> marker_visible (marker (teleportationArc
        (teleportationControls (createController ctrl0 scene0 ses0))))"
  by (simp add: createController_def)

text \<open>
  The driving loop and the two event listeners change the controls by such calls only.
\<close>

lemma update_runs_calls:
  assumes "update s = Some s'"
  shows "\<exists>calls. teleportationControls s' = run_calls calls (teleportationControls s)"
proof (cases "connectedController (threeController s)")
  case None
  with assms have "s' = s" by (simp add: update_def)
  then have "teleportationControls s' = run_calls [] (teleportationControls s)"
    by (simp add: run_calls_def)
  then show ?thesis ..
next
  case (Some cc)
  with assms obtain a0 a1 x y rest where ax: "axes (cc_gamepad cc) = a0 # a1 # x # y # rest"
    by (auto simp add: update_def split: list.splits)
  let ?tc = "teleportationControls s"
  let ?angle = "Vector2_angle (- y) (- x)
                  + euler_YXZ_y (space_quaternion (controller (threeController s)))"
  from update_connected [OF Some ax] assms
  consider "teleportationControls s' = run_calls [Commit (session s)] ?tc"
    | "teleportationControls s' = run_calls [Cancel] ?tc"
    | "teleportationControls s' =
         run_calls [Update (controller (threeController s)) (house s) ?angle] ?tc"
    | "teleportationControls s' = run_calls [Start] ?tc"
    | "teleportationControls s' = run_calls [] ?tc"
    by (auto simp add: run_calls_def split: if_splits)
  then show ?thesis by cases blast+
qed

lemma listeners_keep_controls:
  "teleportationControls (slot_disconnected s) = teleportationControls s"
  "slot_connected s data = Inr s' \<Longrightarrow> teleportationControls s' = teleportationControls s"
  by (auto simp add: slot_disconnected_def slot_connected_def split: sum.splits)

text \<open>
  C7. In every Idle state that the controls reach from \<^verbatim>\<open>createController\<close> by calls of
  their methods, \<^verbatim>\<open>TeleportationControls.update\<close> runs no simulation and stores no
  heading angle: the stored angle, the points of the line and the marker are what they
  were, the state stays Idle, and all that changes is the visibility of the line. After
  the call the line of the arc and the marker are both hidden.
\<close>

theorem idle_update_only_suppresses:
  assumes "this = run_calls calls (teleportationControls (createController ctrl0 scene0 ses0))"
    and "\<not> isTeleporting this"
  shows "TeleportationControls_update this ctrl object angle =
           this\<lparr>teleportationArc := (teleportationArc this)\<lparr>line_visible := False\<rparr>\<rparr> \<and>
         \<not> isTeleporting (TeleportationControls_update this ctrl object angle) \<and>
         teleportationAngle (TeleportationControls_update this ctrl object angle)
           = teleportationAngle this \<and>
         line_points (teleportationArc (TeleportationControls_update this ctrl object angle))
           = line_points (teleportationArc this) \<and>
         marker (teleportationArc (TeleportationControls_update this ctrl object angle))
           = marker (teleportationArc this) \<and>
         \<not> line_visible (teleportationArc (TeleportationControls_update this ctrl object angle)) \<and>
         \<not> marker_visible (marker (teleportationArc
              (TeleportationControls_update this ctrl object angle)))"
proof -
  from created_idle_marker_hidden [of ctrl0 scene0 ses0]
  have "\<not> isTeleporting (teleportationControls (createController ctrl0 scene0 ses0)) \<longrightarrow>
        \<not> marker_visible (marker (teleportationArc
            (teleportationControls (createController ctrl0 scene0 ses0))))"
    by simp
  from run_calls_idle_marker_hidden [OF this, of calls] assms
  have hidden: "\<not> marker_visible (marker (teleportationArc this))"
    by simp
  from idle_update_effect [OF assms(2), of ctrl object angle] hidden assms(2)
  show ?thesis by simp
qed

text \<open>
  The controls after aiming for a frame at a scene with nothing to hit and then
  cancelling: Idle. An update in this state leaves line and marker hidden.
\<close>

theorem idle_update_only_suppresses_witness:
  "\<not> isTeleporting
       (run_calls [Start, Update example_space empty_scene 1, Cancel]
          (teleportationControls new_slot)) \<and>
   \<not> line_visible (teleportationArc
       (TeleportationControls_update
          (run_calls [Start, Update example_space empty_scene 1, Cancel]
             (teleportationControls new_slot))
          example_space empty_scene 2)) \<and>
   \<not> marker_visible (marker (teleportationArc
       (TeleportationControls_update
          (run_calls [Start, Update example_space empty_scene 1, Cancel]
             (teleportationControls new_slot))
          example_space empty_scene 2))) \<and>
   teleportationAngle
       (TeleportationControls_update
          (run_calls [Start, Update example_space empty_scene 1, Cancel]
             (teleportationControls new_slot))
          example_space empty_scene 2) = 1"
proof -
  let ?tc = "run_calls [Start, Update example_space empty_scene 1, Cancel]
               (teleportationControls new_slot)"
  have r: "?tc = run_calls [Start, Update example_space empty_scene 1, Cancel]
                   (teleportationControls (createController example_space empty_scene
                      example_session))"
    by (simp add: new_slot_def)
  have i: "\<not> isTeleporting ?tc"
    by (simp add: run_calls_def cancel_def stop_def)
  have a: "teleportationAngle ?tc = 1"
    by (simp add: run_calls_def cancel_def stop_def start_def TeleportationControls_update_def
        Let_def)
  note t = idle_update_only_suppresses [OF r i, of example_space empty_scene 2]
  from t have 1: "\<not> line_visible (teleportationArc
       (TeleportationControls_update ?tc example_space empty_scene 2))"
    by blast
  from t have 2: "\<not> marker_visible (marker (teleportationArc
       (TeleportationControls_update ?tc example_space empty_scene 2)))"
    by blast
  from t have "teleportationAngle (TeleportationControls_update ?tc example_space empty_scene 2)
      = teleportationAngle ?tc"
    by blast
  with a have 3: "teleportationAngle (TeleportationControls_update ?tc example_space empty_scene 2)
      = 1"
    by (simp only:)
  from i 1 2 3 show ?thesis by blast
qed

section \<open>The round trip of the frame offset\<close>

text \<open>
  What the round-trip property speaks of, in the terms of the WebXR interface (none of it
  is code of the repository): the inverse of a rigid transform (\<^verbatim>\<open>XRRigidTransform.inverse\<close>),
  here for an orientation of unit length, and the image of a point under a rigid
  transform (its matrix applied to the point). The recovered yaw is the \<open>y\<close> angle that
  three.js reads off an orientation, as the driving loop does for the controller.
\<close>

definition conjugate :: "quat \<Rightarrow> quat" where
  "conjugate q = Quaternion (- qx q) (- qy q) (- qz q) (qw q)"

definition inverse_transform :: "xr_rigid_transform \<Rightarrow> xr_rigid_transform" where
  "inverse_transform t =
     (let q = conjugate (transform_orientation t)
      in \<lparr>transform_position = applyQuaternion (negate (transform_position t)) q,
          transform_orientation = q\<rparr>)"

definition transformPoint :: "xr_rigid_transform \<Rightarrow> vec3 \<Rightarrow> vec3" where
  "transformPoint t p = add (applyQuaternion p (transform_orientation t)) (transform_position t)"

text \<open>On the unit circle \<open>atan2\<close> recovers the angle, up to a multiple of \<open>2 * pi\<close>.\<close>

lemma arctan_ratio_pos:
  assumes "s\<^sup>2 + c\<^sup>2 = 1" "0 < (c::real)"
  shows "cos (arctan (s / c)) = c" "sin (arctan (s / c)) = s"
proof -
  have "1 + (s / c)\<^sup>2 = (s\<^sup>2 + c\<^sup>2) / c\<^sup>2"
    using assms(2) by (simp add: power_divide field_simps)
  then have "1 + (s / c)\<^sup>2 = 1 / c\<^sup>2" using assms(1) by simp
  then have "sqrt (1 + (s / c)\<^sup>2) = 1 / c"
    using assms(2) by (simp add: real_sqrt_divide)
  then show "cos (arctan (s / c)) = c" "sin (arctan (s / c)) = s"
    using assms(2) by (simp_all add: cos_arctan sin_arctan)
qed

lemma arctan_ratio_neg:
  assumes "s\<^sup>2 + c\<^sup>2 = 1" "(c::real) < 0"
  shows "cos (arctan (s / c)) = - c" "sin (arctan (s / c)) = - s"
proof -
  have "(- s)\<^sup>2 + (- c)\<^sup>2 = 1" "0 < - c" using assms by simp_all
  from arctan_ratio_pos [OF this] show "cos (arctan (s / c)) = - c" "sin (arctan (s / c)) = - s"
    by simp_all
qed

lemma sin_cos_atan2:
  assumes "s\<^sup>2 + c\<^sup>2 = 1"
  shows "sin (atan2 s c) = s \<and> cos (atan2 s c) = c"
proof -
  consider "0 < c" | "c < 0" | "c = 0"
    by linarith
  then show ?thesis
  proof cases
    case 1
    with arctan_ratio_pos [OF assms] show ?thesis by (simp add: atan2_def)
  next
    case 2
    with arctan_ratio_neg [OF assms] show ?thesis by (simp add: atan2_def)
  next
    case 3
    with assms have "s\<^sup>2 = 1" by simp
    then have "s = 1 \<or> s = - 1" by (simp add: power2_eq_1_iff)
    with 3 show ?thesis by (auto simp add: atan2_def)
  qed
qed

lemma atan2_sin_cos: "\<exists>k::int. atan2 (sin t) (cos t) = t + 2 * pi * real_of_int k"
proof -
  have "(sin t)\<^sup>2 + (cos t)\<^sup>2 = 1" by simp
  from sin_cos_atan2 [OF this]
  have "sin (atan2 (sin t) (cos t)) = sin t \<and> cos (atan2 (sin t) (cos t)) = cos t" .
  then show ?thesis by (simp only: sin_cos_eq_iff)
qed

text \<open>Rotating about the vertical axis and then back gives the vector again.\<close>

lemma yaw_rotation_inverse:
  assumes "s * s + c * c = (1::real)"
  shows "applyQuaternion (applyQuaternion v (Quaternion 0 s 0 c)) (Quaternion 0 (- s) 0 c) = v"
proof -
  have cc: "c * c = 1 - s * s" using assms by simp
  have a: "(1 - 2 * (s * s)) * (1 - 2 * (s * s)) + (2 * s * c) * (2 * s * c) = 1"
  proof -
    have "(2 * s * c) * (2 * s * c) = 4 * (s * s) * (c * c)" by simp
    also have "\<dots> = 4 * (s * s) * (1 - s * s)" by (simp only: cc)
    finally show ?thesis by (simp add: algebra_simps)
  qed
  obtain x y z where v: "v = Vector3 x y z" by (cases v)
  have x: "x * ((1 - 2 * (s * s)) * (1 - 2 * (s * s)) + (2 * s * c) * (2 * s * c)) = x"
    and z: "z * ((1 - 2 * (s * s)) * (1 - 2 * (s * s)) + (2 * s * c) * (2 * s * c)) = z"
    by (simp_all only: a mult_1_right)
  show ?thesis
    using x z unfolding v applyQuaternion_def Let_def
    by (simp add: algebra_simps)
qed

lemma lengthq_yaw: "lengthq (setFromAxisAngle (Vector3 0 1 0) a) = 1"
  by (simp add: lengthq_def setFromAxisAngle_def Let_def power2_eq_square [symmetric])

lemma normalizeq_yaw:
  "normalizeq (setFromAxisAngle (Vector3 0 1 0) a) = setFromAxisAngle (Vector3 0 1 0) a"
  using lengthq_yaw [of a] by (simp add: normalizeq_def Let_def setFromAxisAngle_def)

lemma setOffset_active_space:
  "active_space (webxrManager (setOffset this P \<theta>)) =
     Some (OffsetSpace (baseReferenceSpace this)
             (XRRigidTransform
                (applyQuaternion (negate P) (setFromAxisAngle (Vector3 0 1 0) (- \<theta>)))
                (setFromAxisAngle (Vector3 0 1 0) (- \<theta>))))"
  by (simp add: setOffset_def Let_def setReferenceSpace_def getOffsetReferenceSpace_def
      active_space_def)

lemma negate_negate: "negate (negate v) = v"
  by (cases v) (simp add: negate_def)

lemma applyQuaternion_negate: "applyQuaternion (negate v) q = negate (applyQuaternion v q)"
  by (simp add: applyQuaternion_def negate_def Let_def algebra_simps)

lemma inverse_offset_position:
  "transformPoint
     (inverse_transform
        (XRRigidTransform
           (applyQuaternion (negate P) (setFromAxisAngle (Vector3 0 1 0) (- \<theta>)))
           (setFromAxisAngle (Vector3 0 1 0) (- \<theta>))))
     (Vector3 0 0 0) = P"
proof -
  let ?s = "sin (- \<theta> / 2)" and ?c = "cos (- \<theta> / 2)"
  have q: "setFromAxisAngle (Vector3 0 1 0) (- \<theta>) = Quaternion 0 ?s 0 ?c"
    by (simp add: setFromAxisAngle_def Let_def)
  have u: "?s * ?s + ?c * ?c = 1"
    using sin_cos_squared_add [of "- \<theta> / 2"] by (simp add: power2_eq_square)
  have "applyQuaternion (negate (applyQuaternion (negate P) (Quaternion 0 ?s 0 ?c)))
          (Quaternion 0 (- ?s) 0 ?c) = P"
    using yaw_rotation_inverse [OF u, of P]
    by (simp only: applyQuaternion_negate negate_negate)
  moreover have "add (applyQuaternion (Vector3 0 0 0) qq) v = v" for qq v
    by (cases v) (simp add: add_def applyQuaternion_def)
  moreover have "normalizeq (Quaternion 0 ?s 0 ?c) = Quaternion 0 ?s 0 ?c"
    using normalizeq_yaw [of "- \<theta>"] by (simp only: q)
  ultimately show ?thesis
    unfolding transformPoint_def inverse_transform_def XRRigidTransform_def Let_def q
    by (simp add: conjugate_def)
qed

lemma inverse_offset_yaw:
  "\<exists>k::int. euler_YXZ_y (transform_orientation
     (inverse_transform
        (XRRigidTransform p (setFromAxisAngle (Vector3 0 1 0) (- \<theta>)))))
     = \<theta> + 2 * pi * real_of_int k"
proof -
  have q: "transform_orientation (inverse_transform
        (XRRigidTransform p (setFromAxisAngle (Vector3 0 1 0) (- \<theta>))))
      = Quaternion 0 (sin (\<theta> / 2)) 0 (cos (\<theta> / 2))"
    unfolding inverse_transform_def XRRigidTransform_def Let_def
    by (simp add: normalizeq_yaw conjugate_def) (simp add: setFromAxisAngle_def Let_def)
  have s: "cos (\<theta> / 2) * (2 * sin (\<theta> / 2)) = sin \<theta>"
    using sin_double [of "\<theta> / 2"] by simp
  have c: "1 - sin (\<theta> / 2) * (2 * sin (\<theta> / 2)) = cos \<theta>"
    using cos_double_sin [of "\<theta> / 2"] by (simp add: power2_eq_square algebra_simps)
  have "euler_YXZ_y (Quaternion 0 (sin (\<theta> / 2)) 0 (cos (\<theta> / 2))) = atan2 (sin \<theta>) (cos \<theta>)"
    by (simp add: euler_YXZ_y_def Let_def s c)
  with atan2_sin_cos [of \<theta>] q show ?thesis by simp
qed

text \<open>
  C2. After \<open>setOffset P \<theta>\<close> the active reference space is the base space offset by
  a rigid transform; applying the inverse of that transform to the origin gives \<open>P\<close>
  within \<open>1e-3\<close> in every coordinate (in exact arithmetic it gives \<open>P\<close> itself, see
  \<open>inverse_offset_position\<close>), and the yaw of the inverse is \<open>\<theta>\<close> modulo \<open>2 * pi\<close>
  within \<open>1e-3\<close>.
\<close>

theorem setOffset_round_trip:
  "(let rotation = setFromAxisAngle (Vector3 0 1 0) (- \<theta>);
        offset = XRRigidTransform (applyQuaternion (negate P) rotation) rotation;
        back = inverse_transform offset
    in active_space (webxrManager (setOffset this P \<theta>))
         = Some (OffsetSpace (baseReferenceSpace this) offset) \<and>
       \<bar>vx (transformPoint back (Vector3 0 0 0)) - vx P\<bar> \<le> 1 / 1000 \<and>
       \<bar>vy (transformPoint back (Vector3 0 0 0)) - vy P\<bar> \<le> 1 / 1000 \<and>
       \<bar>vz (transformPoint back (Vector3 0 0 0)) - vz P\<bar> \<le> 1 / 1000 \<and>
       (\<exists>k::int. \<bar>euler_YXZ_y (transform_orientation back)
                    - (\<theta> + 2 * pi * real_of_int k)\<bar> \<le> 1 / 1000))"
proof -
  let ?offset = "XRRigidTransform
                (applyQuaternion (negate P) (setFromAxisAngle (Vector3 0 1 0) (- \<theta>)))
                (setFromAxisAngle (Vector3 0 1 0) (- \<theta>))"
  from inverse_offset_yaw [of "applyQuaternion (negate P) (setFromAxisAngle (Vector3 0 1 0) (- \<theta>))" \<theta>]
  obtain k :: int where "euler_YXZ_y (transform_orientation (inverse_transform ?offset))
      = \<theta> + 2 * pi * real_of_int k" ..
  then have "\<exists>k::int. \<bar>euler_YXZ_y (transform_orientation (inverse_transform ?offset))
                  - (\<theta> + 2 * pi * real_of_int k)\<bar> \<le> 1 / 1000"
    by (intro exI [of _ k]) simp
  then show ?thesis
    unfolding Let_def
    by (simp add: setOffset_active_space inverse_offset_position)
qed

text \<open>
  The inverse defined above is the inverse: for an orientation of unit length it undoes
  the transform at every point.
\<close>

lemma unit_rotation_inverse:
  assumes "lengthq q = 1"
  shows "applyQuaternion (applyQuaternion v q) (conjugate q) = v"
proof -
  obtain a b c d where q: "q = Quaternion a b c d" by (cases q)
  obtain x y z where v: "v = Vector3 x y z" by (cases v)
  from assms q have "sqrt (a * a + b * b + c * c + d * d) = 1" by (simp add: lengthq_def)
  then have u: "a * a + b * b + c * c + d * d = 1" by simp
  show ?thesis
    unfolding q v applyQuaternion_def conjugate_def Let_def
    using u by (simp; algebra)
qed

lemma inverse_transform_undoes:
  assumes "lengthq (transform_orientation t) = 1"
  shows "transformPoint (inverse_transform t) (transformPoint t p) = p"
proof -
  obtain a b c where tp: "transform_position t = Vector3 a b c"
    by (cases "transform_position t")
  obtain x y z where r: "applyQuaternion p (transform_orientation t) = Vector3 x y z"
    by (cases "applyQuaternion p (transform_orientation t)")
  have "add (applyQuaternion (Vector3 (x + a) (y + b) (z + c)) q)
          (applyQuaternion (Vector3 (- a) (- b) (- c)) q)
        = applyQuaternion (Vector3 x y z) q" for q
    by (simp add: add_def applyQuaternion_def Let_def algebra_simps)
  with unit_rotation_inverse [OF assms, of p] r show ?thesis
    by (simp add: transformPoint_def inverse_transform_def Let_def tp add_def negate_def)
qed

section \<open>Aliasing: the vector objects in a store\<close>

text \<open>
  The definitions above pass vectors by value. In the program a \<^verbatim>\<open>Vector3\<close> or a
  \<^verbatim>\<open>Quaternion\<close> is an object that its methods change in place, and a caller sees every
  change made through another reference to the same object. Here the two functions that
  take vectors from their caller are modelled once more with the objects in a store: a
  reference is an index into the list of vector (or quaternion) cells, \<^verbatim>\<open>new\<close> and
  \<^verbatim>\<open>clone()\<close> append a cell, and a method that works in place overwrites the cell of its
  receiver.
\<close>

record store =
  vecs :: "vec3 list"
  quats :: "quat list"

definition vec :: "store \<Rightarrow> nat \<Rightarrow> vec3" where
  "vec s a = vecs s ! a"

definition quat_at :: "store \<Rightarrow> nat \<Rightarrow> quat" where
  "quat_at s a = quats s ! a"

definition set_vec :: "nat \<Rightarrow> vec3 \<Rightarrow> store \<Rightarrow> store" where
  "set_vec a v s = s\<lparr>vecs := (vecs s)[a := v]\<rparr>"

definition set_quat :: "nat \<Rightarrow> quat \<Rightarrow> store \<Rightarrow> store" where
  "set_quat a q s = s\<lparr>quats := (quats s)[a := q]\<rparr>"

definition new_ref :: "store \<Rightarrow> nat" where
  "new_ref s = length (vecs s)"

definition alloc :: "vec3 \<Rightarrow> store \<Rightarrow> store" where
  "alloc v s = s\<lparr>vecs := vecs s @ [v]\<rparr>"

definition new_quat_ref :: "store \<Rightarrow> nat" where
  "new_quat_ref s = length (quats s)"

definition alloc_quat :: "quat \<Rightarrow> store \<Rightarrow> store" where
  "alloc_quat q s = s\<lparr>quats := quats s @ [q]\<rparr>"

text \<open>
  One iteration of the loop of \<^verbatim>\<open>Arccaster.intersectObject\<close>: every statement that
  changes a vector writes the cell of the vector it is called on. \<open>g\<close> refers to
  \<^verbatim>\<open>this.gravity\<close>, \<open>ro\<close> and \<open>rd\<close> to the origin and the direction of the local
  \<^verbatim>\<open>ray\<close>, and \<open>tr\<close> is the array of references \<^verbatim>\<open>trace\<close>. The result is \<open>Inl\<close> when
  the iteration returns from the function and \<open>Inr\<close> with the new trace when the loop
  goes on. The point of a hit is an object that the ray caster has created.
\<close>

definition arc_body_store ::
  "nat \<Rightarrow> object3d \<Rightarrow> nat \<Rightarrow> nat \<Rightarrow> nat \<Rightarrow> nat \<Rightarrow> nat list \<Rightarrow> store
   \<Rightarrow> ((nat list \<times> intersection option) + nat list) \<times> store" where
  "arc_body_store g object velocity position ro rd tr s0 =
     (let s = set_vec velocity (addScaledVector (vec s0 velocity) (vec s0 g) step) s0;
          s = set_vec position (addScaledVector (vec s position) (vec s velocity) step) s
      in if length tr > 0 then
           (let lastPosition = tr ! (length tr - 1);
                s = set_vec ro (vec s lastPosition) s;
                s = set_vec rd (vec s position) s;
                s = set_vec rd (sub (vec s rd) (vec s lastPosition)) s;
                s = set_vec rd (normalize (vec s rd)) s;
                intersections =
                  Raycaster_intersectObject object True
                    \<lparr>origin = vec s ro, direction = vec s rd\<rparr> 0
                    (distanceTo (vec s lastPosition) (vec s position))
            in if length intersections > 0 then
                 (Inl (tr @ [new_ref s], Some (intersections ! 0)),
                  alloc (point (intersections ! 0)) s)
               else (Inr (tr @ [new_ref s]), alloc (vec s position) s))
         else (Inr (tr @ [new_ref s]), alloc (vec s position) s))"

function arc_loop_store ::
  "nat \<Rightarrow> object3d \<Rightarrow> nat \<Rightarrow> nat \<Rightarrow> nat \<Rightarrow> nat \<Rightarrow> nat \<Rightarrow> nat list \<Rightarrow> store
   \<Rightarrow> (nat list \<times> intersection option) \<times> store" where
  "arc_loop_store g object x velocity position ro rd tr s =
     (if x < 50 then
        (case arc_body_store g object velocity position ro rd tr s of
           (Inl res, s') \<Rightarrow> (res, s')
         | (Inr tr', s') \<Rightarrow> arc_loop_store g object (x + 1) velocity position ro rd tr' s')
      else ((tr, None), s))"
  by pat_completeness auto
termination
  by (relation "measure (\<lambda>(g, object, x, velocity, position, ro, rd, tr, s). 50 - x)") auto

declare arc_loop_store.simps [simp del]

text \<open>
  \<^verbatim>\<open>position = position.clone()\<close>, the new velocity vector rotated in place, the trace
  with a second clone of the position, and the two vectors of \<^verbatim>\<open>new THREE.Ray()\<close>.
\<close>

definition intersectObject_store ::
  "nat \<Rightarrow> object3d \<Rightarrow> nat \<Rightarrow> nat \<Rightarrow> store \<Rightarrow> (nat list \<times> intersection option) \<times> store" where
  "intersectObject_store g object position0 rotation s0 =
     (let position = new_ref s0;
          s = alloc (vec s0 position0) s0;
          velocity = new_ref s;
          s = alloc (Vector3 0 0 (- 1)) s;
          s = set_vec velocity (applyQuaternion (vec s velocity) (quat_at s rotation)) s;
          first = new_ref s;
          s = alloc (vec s position) s;
          ro = new_ref s;
          s = alloc (Vector3 0 0 0) s;
          rd = new_ref s;
          s = alloc (Vector3 0 0 (- 1)) s
      in arc_loop_store g object 0 velocity position ro rd [first] s)"

text \<open>
  \<^verbatim>\<open>ThreeXRSession.setOffset\<close>: a new quaternion set from the axis and the angle, a new
  vector that receives a copy of the argument and is then negated and rotated in place;
  the constructor of the rigid transform reads the two.
\<close>

definition setOffset_store ::
  "three_xr_session \<Rightarrow> nat \<Rightarrow> real \<Rightarrow> store \<Rightarrow> three_xr_session \<times> store" where
  "setOffset_store this position0 angle s0 =
     (let rotation = new_quat_ref s0;
          s = alloc_quat identity_quaternion s0;
          s = set_quat rotation (setFromAxisAngle (Vector3 0 1 0) (- angle)) s;
          position = new_ref s;
          s = alloc (Vector3 0 0 0) s;
          s = set_vec position (vec s position0) s;
          s = set_vec position (negate (vec s position)) s;
          s = set_vec position (applyQuaternion (vec s position) (quat_at s rotation)) s;
          offset = XRRigidTransform (vec s position) (quat_at s rotation);
          offsetSpace = getOffsetReferenceSpace (baseReferenceSpace this) offset
      in (this\<lparr>webxrManager := setReferenceSpace (webxrManager this) offsetSpace\<rparr>, s))"

text \<open>
  \<^verbatim>\<open>TeleportationControls.commit\<close> passes the position object of the marker, here the
  reference \<open>marker_position_ref\<close>, to \<^verbatim>\<open>setOffset\<close>.
\<close>

definition commit_store ::
  "teleportation_controls \<Rightarrow> nat \<Rightarrow> three_xr_session \<Rightarrow> store
   \<Rightarrow> (teleportation_controls \<times> three_xr_session) \<times> store" where
  "commit_store this marker_position_ref ses s =
     (let this1 = stop this
      in case setOffset_store ses marker_position_ref (teleportationAngle this1) s of
           (session', s') \<Rightarrow> ((this1, session'), s'))"

subsection \<open>The cells of the caller are left alone\<close>

text \<open>Every cell that exists before a call holds the same value after it.\<close>

definition old_cells_kept :: "store \<Rightarrow> store \<Rightarrow> bool" where
  "old_cells_kept s s' =
     (take (length (vecs s)) (vecs s') = vecs s \<and> take (length (quats s)) (quats s') = quats s)"

lemma take_set_vec [simp]: "n \<le> a \<Longrightarrow> take n (vecs (set_vec a v s)) = take n (vecs s)"
  by (simp add: set_vec_def)

lemma take_alloc [simp]: "n \<le> length (vecs s) \<Longrightarrow> take n (vecs (alloc v s)) = take n (vecs s)"
  by (simp add: alloc_def)

lemma length_set_vec [simp]: "length (vecs (set_vec a v s)) = length (vecs s)"
  by (simp add: set_vec_def)

lemma length_alloc [simp]: "length (vecs (alloc v s)) = Suc (length (vecs s))"
  by (simp add: alloc_def)

lemma quats_set_vec [simp]: "quats (set_vec a v s) = quats s"
  by (simp add: set_vec_def)

lemma quats_alloc [simp]: "quats (alloc v s) = quats s"
  by (simp add: alloc_def)

lemma new_ref_simps [simp]:
  "new_ref (set_vec a v s) = new_ref s" "new_ref (alloc v s) = Suc (new_ref s)"
  by (simp_all add: new_ref_def)

lemma arc_body_store_frame:
  assumes "n \<le> velocity" "n \<le> position" "n \<le> ro" "n \<le> rd" "n \<le> length (vecs s)"
    and "arc_body_store g object velocity position ro rd tr s = (res, s')"
  shows "take n (vecs s') = take n (vecs s) \<and> quats s' = quats s \<and> n \<le> length (vecs s')"
  using assms
  by (auto simp add: arc_body_store_def Let_def split: if_splits)

lemma arc_loop_store_frame:
  "n \<le> velocity \<Longrightarrow> n \<le> position \<Longrightarrow> n \<le> ro \<Longrightarrow> n \<le> rd \<Longrightarrow> n \<le> length (vecs s) \<Longrightarrow>
   arc_loop_store g object x velocity position ro rd tr s = (res, s') \<Longrightarrow>
   take n (vecs s') = take n (vecs s) \<and> quats s' = quats s"
proof (induction g object x velocity position ro rd tr s rule: arc_loop_store.induct)
  case (1 g object x velocity position ro rd tr s)
  show ?case
  proof (cases "x < 50")
    case False
    with "1.prems"(6) show ?thesis by (simp add: arc_loop_store.simps)
  next
    case True
    obtain b s1 where b: "arc_body_store g object velocity position ro rd tr s = (b, s1)"
      by (cases "arc_body_store g object velocity position ro rd tr s")
    from arc_body_store_frame [OF "1.prems"(1-5) b]
    have f: "take n (vecs s1) = take n (vecs s)" "quats s1 = quats s" "n \<le> length (vecs s1)"
      by simp_all
    show ?thesis
    proof (cases b)
      case (Inl r)
      with "1.prems"(6) True b have "s' = s1" by (simp add: arc_loop_store.simps)
      with f show ?thesis by simp
    next
      case (Inr tr')
      with "1.prems"(6) True b
      have "arc_loop_store g object (x + 1) velocity position ro rd tr' s1 = (res, s')"
        by (simp add: arc_loop_store.simps)
      from "1.IH" [OF True b [symmetric] Inr "1.prems"(1-4) f(3) this] f
      show ?thesis by simp
    qed
  qed
qed

lemma intersectObject_store_loop:
  "intersectObject_store g object position0 rotation s =
     arc_loop_store g object 0 (Suc (length (vecs s))) (length (vecs s))
       (Suc (Suc (Suc (length (vecs s))))) (Suc (Suc (Suc (Suc (length (vecs s))))))
       [Suc (Suc (length (vecs s)))]
       (s\<lparr>vecs := vecs s @
           [vec s position0, applyQuaternion (Vector3 0 0 (- 1)) (quat_at s rotation),
            vec s position0, Vector3 0 0 0, Vector3 0 0 (- 1)]\<rparr>)"
  by (simp add: intersectObject_store_def Let_def new_ref_def vec_def quat_at_def alloc_def
      set_vec_def nth_append list_update_append)

lemma intersectObject_store_frame:
  assumes "intersectObject_store g object position0 rotation s = (res, s')"
  shows "old_cells_kept s s'"
proof -
  let ?n = "length (vecs s)"
  let ?s6 = "s\<lparr>vecs := vecs s @
           [vec s position0, applyQuaternion (Vector3 0 0 (- 1)) (quat_at s rotation),
            vec s position0, Vector3 0 0 0, Vector3 0 0 (- 1)]\<rparr>"
  from assms have loop: "arc_loop_store g object 0 (Suc ?n) ?n (Suc (Suc (Suc ?n)))
       (Suc (Suc (Suc (Suc ?n)))) [Suc (Suc ?n)] ?s6 = (res, s')"
    by (simp only: intersectObject_store_loop)
  have "take ?n (vecs s') = take ?n (vecs ?s6) \<and> quats s' = quats ?s6"
    by (rule arc_loop_store_frame [OF _ _ _ _ _ loop]) simp_all
  then show ?thesis
    by (simp add: old_cells_kept_def)
qed

lemma setOffset_store_frame:
  assumes "setOffset_store this position0 angle s = (ses, s')"
  shows "old_cells_kept s s'"
  using assms
  by (auto simp add: setOffset_store_def Let_def old_cells_kept_def alloc_quat_def set_quat_def
      new_quat_ref_def new_ref_def alloc_def set_vec_def)

lemma old_cells_kept_vec: "old_cells_kept s s' \<Longrightarrow> a < length (vecs s) \<Longrightarrow> vec s' a = vec s a"
  unfolding old_cells_kept_def vec_def
  by (metis nth_take)

lemma old_cells_kept_quat:
  "old_cells_kept s s' \<Longrightarrow> a < length (quats s) \<Longrightarrow> quat_at s' a = quat_at s a"
  unfolding old_cells_kept_def quat_at_def
  by (metis nth_take)

subsection \<open>The store model computes what the value model computes\<close>

text \<open>
  The references of the loop are allocated and pairwise different, and no reference of
  the trace is one of the four vectors the loop writes.
\<close>

definition refs_ok :: "nat \<Rightarrow> nat \<Rightarrow> nat \<Rightarrow> nat \<Rightarrow> nat \<Rightarrow> nat list \<Rightarrow> store \<Rightarrow> bool" where
  "refs_ok g velocity position ro rd tr s =
     (distinct [g, velocity, position, ro, rd] \<and>
      g < length (vecs s) \<and> velocity < length (vecs s) \<and> position < length (vecs s) \<and>
      ro < length (vecs s) \<and> rd < length (vecs s) \<and>
      tr \<noteq> [] \<and>
      (\<forall>t \<in> set tr. t < length (vecs s) \<and> t \<noteq> velocity \<and> t \<noteq> position \<and> t \<noteq> ro \<and> t \<noteq> rd))"

lemma vec_set_vec: "a < length (vecs s) \<Longrightarrow> vec (set_vec a v s) b = (if b = a then v else vec s b)"
  by (simp add: vec_def set_vec_def)

lemma vec_alloc_old: "b < length (vecs s) \<Longrightarrow> vec (alloc v s) b = vec s b"
  by (simp add: vec_def alloc_def nth_append)

lemma vec_alloc_new: "vec (alloc v s) (length (vecs s)) = v"
  by (simp add: vec_def alloc_def)

lemma arc_body_store_pure:
  fixes object :: object3d
  assumes ok: "refs_ok g velocity position ro rd tr s"
  defines "v' \<equiv> addScaledVector (vec s velocity) (vec s g) step"
  defines "p' \<equiv> addScaledVector (vec s position) v' step"
  defines "hits \<equiv> Raycaster_intersectObject object True
                    \<lparr>origin = vec s (last tr), direction = normalize (sub p' (vec s (last tr)))\<rparr>
                    0 (distanceTo (vec s (last tr)) p')"
  shows "(hits = [] \<longrightarrow>
            fst (arc_body_store g object velocity position ro rd tr s)
              = Inr (tr @ [length (vecs s)]) \<and>
            vec (snd (arc_body_store g object velocity position ro rd tr s)) velocity = v' \<and>
            vec (snd (arc_body_store g object velocity position ro rd tr s)) position = p' \<and>
            vec (snd (arc_body_store g object velocity position ro rd tr s)) g = vec s g \<and>
            refs_ok g velocity position ro rd (tr @ [length (vecs s)])
              (snd (arc_body_store g object velocity position ro rd tr s)) \<and>
            map (vec (snd (arc_body_store g object velocity position ro rd tr s)))
              (tr @ [length (vecs s)]) = map (vec s) tr @ [p'])
       \<and> (\<forall>h hs. hits = h # hs \<longrightarrow>
            fst (arc_body_store g object velocity position ro rd tr s)
              = Inl (tr @ [length (vecs s)], Some h) \<and>
            map (vec (snd (arc_body_store g object velocity position ro rd tr s)))
              (tr @ [length (vecs s)]) = map (vec s) tr @ [point h])"
proof -
  from ok have ne: "tr \<noteq> []" and lt: "last tr \<in> set tr"
    by (simp_all add: refs_ok_def)
  from ok lt have l: "last tr < length (vecs s)" "last tr \<noteq> velocity" "last tr \<noteq> position"
    "last tr \<noteq> ro" "last tr \<noteq> rd"
    by (auto simp add: refs_ok_def)
  from ok have d: "g \<noteq> velocity" "g \<noteq> position" "g \<noteq> ro" "g \<noteq> rd" "velocity \<noteq> position"
    "velocity \<noteq> ro" "velocity \<noteq> rd" "position \<noteq> ro" "position \<noteq> rd" "ro \<noteq> rd"
    and b: "g < length (vecs s)" "velocity < length (vecs s)" "position < length (vecs s)"
    "ro < length (vecs s)" "rd < length (vecs s)"
    and t: "\<forall>t \<in> set tr. t < length (vecs s) \<and> t \<noteq> velocity \<and> t \<noteq> position \<and> t \<noteq> ro \<and> t \<noteq> rd"
    by (simp_all add: refs_ok_def)
  define s6 where "s6 =
     set_vec rd (normalize (sub p' (vec s (last tr))))
       (set_vec rd (sub p' (vec s (last tr)))
          (set_vec rd p'
             (set_vec ro (vec s (last tr))
                (set_vec position p' (set_vec velocity v' s)))))"
  have len6: "length (vecs s6) = length (vecs s)"
    by (simp add: s6_def)
  have v6: "vec s6 velocity = v'" "vec s6 position = p'" "vec s6 g = vec s g"
    "vec s6 ro = vec s (last tr)" "vec s6 rd = normalize (sub p' (vec s (last tr)))"
    "vec s6 (last tr) = vec s (last tr)"
    using d b l by (simp_all add: s6_def vec_set_vec)
  have t6: "t \<in> set tr \<Longrightarrow> vec s6 t = vec s t" for t
    using t b by (auto simp add: s6_def vec_set_vec)
  have body: "arc_body_store g object velocity position ro rd tr s =
      (if length hits > 0
       then (Inl (tr @ [length (vecs s)], Some (hits ! 0)), alloc (point (hits ! 0)) s6)
       else (Inr (tr @ [length (vecs s)]), alloc p' s6))"
    using ne d b l
    unfolding arc_body_store_def Let_def hits_def s6_def p'_def v'_def
    by (simp add: vec_set_vec last_conv_nth new_ref_def)
  have m: "map (vec (alloc w s6)) (tr @ [length (vecs s)]) = map (vec s) tr @ [w]" for w
    using t t6 len6 by (auto simp add: vec_alloc_old vec_alloc_new [of w s6, unfolded len6])
  have ok': "refs_ok g velocity position ro rd (tr @ [length (vecs s)]) (alloc w s6)" for w
    using ok len6 by (auto simp add: refs_ok_def)
  show ?thesis
    using body m ok' v6 b len6
    by (auto simp add: vec_alloc_old)
qed

lemma arc_loop_unfold:
  assumes "x < 50" "vs \<noteq> []"
  shows "arc_loop gv object x v p vs =
     (let v' = addScaledVector v gv step;
          p' = addScaledVector p v' step;
          hits = Raycaster_intersectObject object True
                   \<lparr>origin = last vs, direction = normalize (sub p' (last vs))\<rparr>
                   0 (distanceTo (last vs) p')
      in case hits of
           [] \<Rightarrow> arc_loop gv object (x + 1) v' p' (vs @ [p'])
         | h # _ \<Rightarrow> \<lparr>trace = vs @ [point h], intersection = Some h\<rparr>)"
  using assms
  by (subst arc_loop.simps) (simp add: Let_def last_conv_nth split: list.splits)

lemma arc_loop_store_pure:
  "refs_ok g velocity position ro rd tr s \<Longrightarrow>
   arc_loop_store g object x velocity position ro rd tr s = ((tr', hit), s') \<Longrightarrow>
   arc_loop (vec s g) object x (vec s velocity) (vec s position) (map (vec s) tr)
     = \<lparr>trace = map (vec s') tr', intersection = hit\<rparr>"
proof (induction g object x velocity position ro rd tr s rule: arc_loop_store.induct)
  case (1 g object x velocity position ro rd tr s)
  show ?case
  proof (cases "x < 50")
    case False
    with "1.prems"(2) show ?thesis
      by (simp add: arc_loop_store.simps arc_loop.simps)
  next
    case True
    define v' where "v' = addScaledVector (vec s velocity) (vec s g) step"
    define p' where "p' = addScaledVector (vec s position) v' step"
    define hits where "hits = Raycaster_intersectObject object True
                    \<lparr>origin = vec s (last tr), direction = normalize (sub p' (vec s (last tr)))\<rparr>
                    0 (distanceTo (vec s (last tr)) p')"
    obtain b s1 where b: "arc_body_store g object velocity position ro rd tr s = (b, s1)"
      by (cases "arc_body_store g object velocity position ro rd tr s")
    from "1.prems"(1) have ne: "tr \<noteq> []"
      by (simp add: refs_ok_def)
    then have lm: "last (map (vec s) tr) = vec s (last tr)" "map (vec s) tr \<noteq> []"
      by (simp_all add: last_map)
    have body:
      "(hits = [] \<longrightarrow>
            b = Inr (tr @ [length (vecs s)]) \<and> vec s1 velocity = v' \<and> vec s1 position = p' \<and>
            vec s1 g = vec s g \<and>
            refs_ok g velocity position ro rd (tr @ [length (vecs s)]) s1 \<and>
            map (vec s1) (tr @ [length (vecs s)]) = map (vec s) tr @ [p'])
       \<and> (\<forall>h hs. hits = h # hs \<longrightarrow>
            b = Inl (tr @ [length (vecs s)], Some h) \<and>
            map (vec s1) (tr @ [length (vecs s)]) = map (vec s) tr @ [point h])"
      using arc_body_store_pure [OF "1.prems"(1), of object]
      unfolding b fst_conv snd_conv hits_def p'_def v'_def .
    have pure: "arc_loop (vec s g) object x (vec s velocity) (vec s position) (map (vec s) tr) =
       (case hits of
           [] \<Rightarrow> arc_loop (vec s g) object (x + 1) v' p' (map (vec s) tr @ [p'])
         | h # _ \<Rightarrow> \<lparr>trace = map (vec s) tr @ [point h], intersection = Some h\<rparr>)"
      unfolding arc_loop_unfold [OF True lm(2)] lm(1) Let_def hits_def p'_def v'_def ..
    show ?thesis
    proof (cases hits)
      case Nil
      with body have r: "b = Inr (tr @ [length (vecs s)])" "vec s1 velocity = v'"
        "vec s1 position = p'" "vec s1 g = vec s g"
        "refs_ok g velocity position ro rd (tr @ [length (vecs s)]) s1"
        "map (vec s1) (tr @ [length (vecs s)]) = map (vec s) tr @ [p']"
        by simp_all
      from "1.prems"(2) True b r(1)
      have loop: "arc_loop_store g object (x + 1) velocity position ro rd
                    (tr @ [length (vecs s)]) s1 = ((tr', hit), s')"
        by (simp add: arc_loop_store.simps)
      from "1.IH" [OF True b [symmetric] r(1) r(5) loop]
      have "arc_loop (vec s1 g) object (x + 1) (vec s1 velocity) (vec s1 position)
              (map (vec s1) (tr @ [length (vecs s)]))
            = \<lparr>trace = map (vec s') tr', intersection = hit\<rparr>" .
      then have "arc_loop (vec s g) object (x + 1) v' p' (map (vec s) tr @ [p'])
            = \<lparr>trace = map (vec s') tr', intersection = hit\<rparr>"
        by (simp only: r)
      with Nil pure show ?thesis by simp
    next
      case (Cons h hs)
      with body have r: "b = Inl (tr @ [length (vecs s)], Some h)"
        "map (vec s1) (tr @ [length (vecs s)]) = map (vec s) tr @ [point h]"
        by simp_all
      from "1.prems"(2) True b r(1)
      have "tr' = tr @ [length (vecs s)]" "hit = Some h" "s' = s1"
        by (simp_all add: arc_loop_store.simps)
      with r(2) have "map (vec s') tr' = map (vec s) tr @ [point h]" "hit = Some h"
        by (simp_all only:)
      with Cons pure show ?thesis by simp
    qed
  qed
qed

lemma intersectObject_store_pure:
  assumes "g < length (vecs s)"
    and "intersectObject_store g object position0 rotation s = ((tr, hit), s')"
  shows "intersectObject \<lparr>gravity = vec s g\<rparr> object (vec s position0) (quat_at s rotation)
           = \<lparr>trace = map (vec s') tr, intersection = hit\<rparr>"
proof -
  let ?n = "length (vecs s)"
  let ?s6 = "s\<lparr>vecs := vecs s @
           [vec s position0, applyQuaternion (Vector3 0 0 (- 1)) (quat_at s rotation),
            vec s position0, Vector3 0 0 0, Vector3 0 0 (- 1)]\<rparr>"
  from assms(2) have loop: "arc_loop_store g object 0 (Suc ?n) ?n (Suc (Suc (Suc ?n)))
       (Suc (Suc (Suc (Suc ?n)))) [Suc (Suc ?n)] ?s6 = ((tr, hit), s')"
    by (simp only: intersectObject_store_loop)
  have ok: "refs_ok g (Suc ?n) ?n (Suc (Suc (Suc ?n))) (Suc (Suc (Suc (Suc ?n)))) [Suc (Suc ?n)] ?s6"
    using assms(1) by (simp add: refs_ok_def)
  have vals: "vec ?s6 g = vec s g" "vec ?s6 ?n = vec s position0"
    "vec ?s6 (Suc ?n) = applyQuaternion (Vector3 0 0 (- 1)) (quat_at s rotation)"
    "vec ?s6 (Suc (Suc ?n)) = vec s position0"
    using assms(1) by (simp_all add: vec_def nth_append)
  from arc_loop_store_pure [OF ok loop] vals show ?thesis
    by (simp add: intersectObject_def)
qed

lemma setOffset_store_pure:
  assumes "position0 < length (vecs s)"
  shows "fst (setOffset_store this position0 angle s) = setOffset this (vec s position0) angle"
  using assms
  by (simp add: setOffset_store_def setOffset_def Let_def new_quat_ref_def alloc_quat_def
      set_quat_def new_ref_def alloc_def set_vec_def vec_def quat_at_def nth_append)

lemma commit_store_setOffset:
  "snd (commit_store this target ses s) =
     snd (setOffset_store ses target (teleportationAngle (stop this)) s)"
  by (simp add: commit_store_def Let_def split: prod.splits)

text \<open>
  C10. Neither the trajectory simulation nor the installation of the frame offset changes
  a vector of its caller: after \<^verbatim>\<open>Arccaster.intersectObject\<close> the position and the
  orientation it was given (and every other object that existed before the call) hold
  the values they had, and so does the target position after
  \<^verbatim>\<open>ThreeXRSession.setOffset\<close>, hence the position of the marker after a commit.
\<close>

theorem arguments_not_mutated:
  assumes "position < length (vecs s)" and "rotation < length (quats s)"
    and "target < length (vecs s)"
  shows "old_cells_kept s (snd (intersectObject_store g object position rotation s)) \<and>
         vec (snd (intersectObject_store g object position rotation s)) position = vec s position \<and>
         quat_at (snd (intersectObject_store g object position rotation s)) rotation
           = quat_at s rotation \<and>
         old_cells_kept s (snd (setOffset_store ses target angle s)) \<and>
         vec (snd (setOffset_store ses target angle s)) target = vec s target \<and>
         vec (snd (commit_store this target ses s)) target = vec s target"
proof -
  have a: "old_cells_kept s (snd (intersectObject_store g object position rotation s))"
    by (rule intersectObject_store_frame [of g object position rotation s
          "fst (intersectObject_store g object position rotation s)"]) simp
  have b: "old_cells_kept s (snd (setOffset_store ses' target angle' s))" for ses' angle'
    by (rule setOffset_store_frame [of ses' target angle' s
          "fst (setOffset_store ses' target angle' s)"]) simp
  from a b assms show ?thesis
    by (simp add: old_cells_kept_vec old_cells_kept_quat commit_store_setOffset)
qed

text \<open>A store with a position, a gravity vector, a target position and an orientation.\<close>

definition example_store :: store where
  "example_store =
     \<lparr>vecs = [Vector3 0 1 0, Vector3 0 (- 0.1) 0, Vector3 2 0 3],
      quats = [identity_quaternion]\<rparr>"

theorem arguments_not_mutated_witness:
  "vec (snd (intersectObject_store 1 empty_scene 0 0 example_store)) 0 = Vector3 0 1 0 \<and>
   quat_at (snd (intersectObject_store 1 empty_scene 0 0 example_store)) 0 = identity_quaternion \<and>
   vec (snd (setOffset_store example_session 2 (pi / 4) example_store)) 2 = Vector3 2 0 3 \<and>
   vec (snd (commit_store (teleportationControls (aiming_slot True)) 2 example_session
               example_store)) 2 = Vector3 2 0 3"
proof -
  have "(0::nat) < length (vecs example_store)" "(0::nat) < length (quats example_store)"
    "(2::nat) < length (vecs example_store)"
    by (simp_all add: example_store_def)
  from arguments_not_mutated [OF this, of 1 empty_scene example_session "pi / 4"
      "teleportationControls (aiming_slot True)"]
  show ?thesis
    by (simp add: vec_def quat_at_def example_store_def)
qed

end
